theory Spec2Isabelle
  imports Complex_Main "HOL-Library.AList"
begin

section \<open>Conventions of the embedding\<close>

text \<open>
  The development embeds the adaptive coaching engine of \<^verbatim>\<open>md_scanner/learning\<close>:
  \<^verbatim>\<open>behavior_tracker.py\<close>, \<^verbatim>\<open>difficulty_detector.py\<close>, \<^verbatim>\<open>suggestion_engine.py\<close> and
  \<^verbatim>\<open>adaptive_coach.py\<close>.

  \<^item> A Python \<^verbatim>\<open>float\<close> is a \<^typ>\<open>real\<close>: the arithmetic is exact. The properties below
    compare literals of the source, quotients of small integers, and sums and differences
    of such values by \<^verbatim>\<open>min\<close> and \<^verbatim>\<open>max\<close>; the rounding of floating-point arithmetic
    changes none of these comparisons.
  \<^item> A Python \<^verbatim>\<open>dict\<close> is an association list in insertion order; \<^verbatim>\<open>d.get(k)\<close> is
    \<^const>\<open>map_of\<close>, \<^verbatim>\<open>d[k] = v\<close> is \<^const>\<open>AList.update\<close>.
  \<^item> A method that mutates \<^verbatim>\<open>self\<close> takes the object and returns the new one; a method
    that can raise returns \<open>error + 'a\<close>, \<^const>\<open>Inl\<close> carrying the exception.
  \<^item> A leading underscore of a Python name is dropped (\<^verbatim>\<open>_calculate_intensity\<close> is
    \<open>calculate_intensity\<close>), since an Isabelle name starts with a letter.
\<close>

datatype error =
    AttributeError string
  | KeyError string
  | TypeError string
  | OSError
  | JSONDecodeError

section \<open>The environment of a call\<close>

text \<open>
  What a call reads from outside the program is an argument \<open>w\<close>: the clock
  (\<^verbatim>\<open>datetime.now()\<close>, as an instant in microseconds and as its \<^verbatim>\<open>isoformat()\<close>; one reading
  serves a whole call), \<^verbatim>\<open>random.random()\<close>, the session hash (an MD5 of clock and process
  id), and the functions of the standard library whose text output no property depends on
  (formatting of numbers, \<^verbatim>\<open>strftime\<close>, \<^verbatim>\<open>pathlib\<close>). An event's time stamp is stored as the
  instant its ISO string denotes.
\<close>

record world =
  now :: int
  now_iso :: string
  random :: real
  session_hash :: string
  today :: string
  percent0 :: "real \<Rightarrow> string"
  fixed1 :: "real \<Rightarrow> string"
  path_parts :: "string \<Rightarrow> string list"
  path_parent :: "string \<Rightarrow> string"
  path_stem :: "string \<Rightarrow> string"
  path_suffix :: "string \<Rightarrow> string"
  decimal :: "nat \<Rightarrow> string"

definition timedelta_days :: "int \<Rightarrow> int" where
  "timedelta_days d = d * 86400000000"

definition timedelta_minutes :: "int \<Rightarrow> int" where
  "timedelta_minutes m = m * 60000000"

section \<open>Python values\<close>

text \<open>Truthiness of an optional string: \<^verbatim>\<open>None\<close> and \<^verbatim>\<open>''\<close> are false.\<close>

definition truthy :: "string option \<Rightarrow> bool" where
  "truthy v = (case v of None \<Rightarrow> False | Some s \<Rightarrow> s \<noteq> [])"

text \<open>The slice \<^verbatim>\<open>xs[-n:]\<close> for a positive literal \<open>n\<close>.\<close>

definition last_n :: "nat \<Rightarrow> 'a list \<Rightarrow> 'a list" where
  "last_n n xs = drop (length xs - n) xs"

text \<open>\<^verbatim>\<open>counts[k] += 1\<close> on a \<^verbatim>\<open>defaultdict(int)\<close>.\<close>

definition bump :: "'k \<Rightarrow> ('k \<times> nat) list \<Rightarrow> ('k \<times> nat) list" where
  "bump k d = AList.update k (Suc (case map_of d k of None \<Rightarrow> 0 | Some c \<Rightarrow> c)) d"

text \<open>Strings are ASCII; these are \<^verbatim>\<open>str.isdigit\<close>, \<^verbatim>\<open>str.isupper\<close>, \<^verbatim>\<open>str.lower\<close> there.\<close>

definition isdigit :: "char \<Rightarrow> bool" where
  "isdigit c = (let n = (of_char c :: nat) in 48 \<le> n \<and> n \<le> 57)"

definition isupper :: "char \<Rightarrow> bool" where
  "isupper c = (let n = (of_char c :: nat) in 65 \<le> n \<and> n \<le> 90)"

definition lower_char :: "char \<Rightarrow> char" where
  "lower_char c = (if isupper c then char_of (of_char c + (32::nat)) else c)"

definition lower :: "string \<Rightarrow> string" where
  "lower s = map lower_char s"

text \<open>
  A value that a dictionary built by the detector holds, and \<^verbatim>\<open>d[k]\<close>, which raises
  \<^verbatim>\<open>KeyError\<close> on a missing key.
\<close>

datatype pyval = PStr string | PNum real | PBool bool | PStrs "string list"

definition getitem :: "(string \<times> 'v) list \<Rightarrow> string \<Rightarrow> error + 'v" where
  "getitem d k = (case map_of d k of None \<Rightarrow> Inl (KeyError k) | Some v \<Rightarrow> Inr v)"

text \<open>
  The content of a persisted file as \<^verbatim>\<open>open\<close> and \<^verbatim>\<open>json.load\<close> see it: no such file, a file
  that cannot be read, text that is not JSON, or the JSON text of a value. \<^verbatim>\<open>json.dump\<close>
  followed by \<^verbatim>\<open>json.load\<close> is the identity on the values written here (strings, integers,
  finite floats, booleans, \<^verbatim>\<open>None\<close>, lists, dictionaries with string keys).
\<close>

datatype 'a file_content = Absent | Unreadable | Not_json | Parsed 'a

datatype json =
    JNull
  | JBool bool
  | JInt int
  | JFloat real
  | JStr string
  | JArr "json list"
  | JObj "(string \<times> json) list"

section \<open>behavior\_tracker.py\<close>

record SearchEvent =
  se_timestamp :: int
  query :: string
  results_count :: int
  clicked_result :: "string option"
  time_to_click_ms :: "int option"
  refined_query :: "string option"
  se_session_id :: string

record FileAccessEvent =
  fa_timestamp :: int
  file_path :: string
  file_type :: string
  access_type :: string
  previous_name :: "string option"
  new_name :: "string option"
  source_path :: "string option"
  dest_path :: "string option"
  fa_session_id :: string

record NavigationEvent =
  nav_timestamp :: int
  path :: string
  time_spent_seconds :: real
  files_viewed :: int
  action_taken :: string
  nav_session_id :: string

record OrganizationDecision =
  od_timestamp :: int
  decision_type :: string
  suggested_value :: "string option"
  user_value :: string
  od_file_path :: string
  od_context :: "(string \<times> string) list"

record UserSession =
  session_id :: string
  start_time :: int
  end_time :: "int option"
  searches :: "SearchEvent list"
  file_accesses :: "FileAccessEvent list"
  navigation :: "NavigationEvent list"
  decisions :: "OrganizationDecision list"

text \<open>The dictionary \<^verbatim>\<open>self.events\<close> with its four fixed keys.\<close>

record event_log =
  log_searches :: "SearchEvent list"
  log_file_accesses :: "FileAccessEvent list"
  log_navigation :: "NavigationEvent list"
  log_decisions :: "OrganizationDecision list"

text \<open>The dictionary \<^verbatim>\<open>self.stats\<close>.\<close>

record user_stats =
  total_searches :: int
  successful_searches :: int
  total_files_accessed :: int
  renames_performed :: int
  stat_suggestions_accepted :: int
  stat_suggestions_rejected :: int
  stat_suggestions_customized :: int
  first_seen :: "int option"
  last_seen :: "int option"
  skill_scores :: "(string \<times> real) list"

record tracker_files =
  events_file :: "event_log file_content"
  sessions_file :: "UserSession list file_content"
  stats_file :: "user_stats file_content"

text \<open>
  The tracker object. \<open>files\<close> is the content of its three files in the data directory,
  which only the tracker writes. A file that holds JSON holds a value of the shape the
  tracker writes: \<^verbatim>\<open>_load_json\<close> checks no shape, and the typed model starts after it.
\<close>

record BehaviorTracker =
  events :: event_log
  sessions :: "UserSession list"
  stats :: user_stats
  tracker_session :: "UserSession option"
  files :: tracker_files

definition default_events :: event_log where
  "default_events =
     \<lparr>log_searches = [], log_file_accesses = [], log_navigation = [], log_decisions = []\<rparr>"

definition default_stats :: user_stats where
  "default_stats =
     \<lparr>total_searches = 0, successful_searches = 0, total_files_accessed = 0,
      renames_performed = 0, stat_suggestions_accepted = 0, stat_suggestions_rejected = 0,
      stat_suggestions_customized = 0, first_seen = None, last_seen = None,
      skill_scores = []\<rparr>"

text \<open>\<^verbatim>\<open>_load_json\<close>: the bare \<^verbatim>\<open>except\<close> turns every failure into the default.\<close>

definition load_json :: "'a file_content \<Rightarrow> 'a \<Rightarrow> 'a" where
  "load_json content dflt =
     (case content of
        Absent \<Rightarrow> dflt
      | Unreadable \<Rightarrow> dflt
      | Not_json \<Rightarrow> dflt
      | Parsed v \<Rightarrow> v)"

text \<open>\<^verbatim>\<open>BehaviorTracker.__init__\<close> with \<^verbatim>\<open>_load_data\<close>.\<close>

definition BehaviorTracker_init :: "tracker_files \<Rightarrow> BehaviorTracker" where
  "BehaviorTracker_init fs =
     \<lparr>events = load_json (events_file fs) default_events,
      sessions = load_json (sessions_file fs) [],
      stats = load_json (stats_file fs) default_stats,
      tracker_session = None,
      files = fs\<rparr>"

definition save_data :: "BehaviorTracker \<Rightarrow> BehaviorTracker" where
  "save_data t =
     t\<lparr>files := \<lparr>events_file = Parsed (events t), sessions_file = Parsed (sessions t),
                  stats_file = Parsed (stats t)\<rparr>\<rparr>"

definition new_session :: "world \<Rightarrow> UserSession" where
  "new_session w =
     \<lparr>session_id = session_hash w, start_time = now w, end_time = None, searches = [],
      file_accesses = [], navigation = [], decisions = []\<rparr>"

definition tracker_start_session :: "world \<Rightarrow> BehaviorTracker \<Rightarrow> string \<times> BehaviorTracker" where
  "tracker_start_session w t =
     (let st = stats t;
          st1 = (if first_seen st = None then st\<lparr>first_seen := Some (now w)\<rparr> else st)
      in (session_hash w,
          t\<lparr>tracker_session := Some (new_session w),
             stats := st1\<lparr>last_seen := Some (now w)\<rparr>\<rparr>))"

definition tracker_end_session :: "world \<Rightarrow> BehaviorTracker \<Rightarrow> BehaviorTracker" where
  "tracker_end_session w t =
     (case tracker_session t of
        None \<Rightarrow> t
      | Some s \<Rightarrow>
          save_data (t\<lparr>sessions := sessions t @ [s\<lparr>end_time := Some (now w)\<rparr>],
                       tracker_session := None\<rparr>))"

text \<open>
  \<^verbatim>\<open>if not self.current_session: self.start_session()\<close>, the first statement of every
  recorder: the open session and the tracker that holds it.
\<close>

definition ensure_session :: "world \<Rightarrow> BehaviorTracker \<Rightarrow> UserSession \<times> BehaviorTracker" where
  "ensure_session w t =
     (case tracker_session t of
        Some s \<Rightarrow> (s, t)
      | None \<Rightarrow> (new_session w, snd (tracker_start_session w t)))"

definition record_search ::
  "world \<Rightarrow> string \<Rightarrow> int \<Rightarrow> string option \<Rightarrow> int option \<Rightarrow> string option \<Rightarrow>
   BehaviorTracker \<Rightarrow> BehaviorTracker" where
  "record_search w q n clicked ms refined t0 =
     (case ensure_session w t0 of (s, t) \<Rightarrow>
        (let event = \<lparr>se_timestamp = now w, query = q, results_count = n,
                      clicked_result = clicked, time_to_click_ms = ms,
                      refined_query = refined, se_session_id = session_id s\<rparr>;
             st = (stats t)\<lparr>total_searches := total_searches (stats t) + 1\<rparr>
         in save_data
              (t\<lparr>tracker_session := Some (s\<lparr>searches := searches s @ [event]\<rparr>),
                 events := (events t)\<lparr>log_searches := log_searches (events t) @ [event]\<rparr>,
                 stats := (if truthy clicked
                           then st\<lparr>successful_searches := successful_searches st + 1\<rparr>
                           else st)\<rparr>)))"

text \<open>
  \<^verbatim>\<open>record_file_access\<close>. The file type is \<^verbatim>\<open>Path(file_path).suffix.lower()\<close>, or
  \<^verbatim>\<open>'unknown'\<close> for an empty path.
\<close>

definition record_file_access ::
  "world \<Rightarrow> string \<Rightarrow> string \<Rightarrow> string option \<Rightarrow> string option \<Rightarrow> string option \<Rightarrow>
   string option \<Rightarrow> BehaviorTracker \<Rightarrow> BehaviorTracker" where
  "record_file_access w fp atype prev new src dst t0 =
     (case ensure_session w t0 of (s, t) \<Rightarrow>
        (let event = \<lparr>fa_timestamp = now w, file_path = fp,
                      file_type = (if fp \<noteq> [] then lower (path_suffix w fp) else ''unknown''),
                      access_type = atype, previous_name = prev, new_name = new,
                      source_path = src, dest_path = dst, fa_session_id = session_id s\<rparr>;
             st = (stats t)\<lparr>total_files_accessed := total_files_accessed (stats t) + 1\<rparr>
         in save_data
              (t\<lparr>tracker_session := Some (s\<lparr>file_accesses := file_accesses s @ [event]\<rparr>),
                 events := (events t)\<lparr>log_file_accesses :=
                                         log_file_accesses (events t) @ [event]\<rparr>,
                 stats := (if atype = ''rename''
                           then st\<lparr>renames_performed := renames_performed st + 1\<rparr>
                           else st)\<rparr>)))"

definition record_navigation ::
  "world \<Rightarrow> string \<Rightarrow> real \<Rightarrow> int \<Rightarrow> string \<Rightarrow> BehaviorTracker \<Rightarrow> BehaviorTracker" where
  "record_navigation w p secs viewed action t0 =
     (case ensure_session w t0 of (s, t) \<Rightarrow>
        (let event = \<lparr>nav_timestamp = now w, path = p, time_spent_seconds = secs,
                      files_viewed = viewed, action_taken = action,
                      nav_session_id = session_id s\<rparr>
         in save_data
              (t\<lparr>tracker_session := Some (s\<lparr>navigation := navigation s @ [event]\<rparr>),
                 events := (events t)\<lparr>log_navigation :=
                                         log_navigation (events t) @ [event]\<rparr>\<rparr>)))"

text \<open>
  \<^verbatim>\<open>record_decision(decision_type, user_value, file_path, suggested_value=None,
  context=None)\<close>: the only recorder of organization decisions the class defines.
\<close>

definition record_decision ::
  "world \<Rightarrow> string \<Rightarrow> string \<Rightarrow> string \<Rightarrow> string option \<Rightarrow> (string \<times> string) list option \<Rightarrow>
   BehaviorTracker \<Rightarrow> BehaviorTracker" where
  "record_decision w dtype uval fp sugg ctx t0 =
     (case ensure_session w t0 of (s, t) \<Rightarrow>
        (let decision = \<lparr>od_timestamp = now w, decision_type = dtype, suggested_value = sugg,
                         user_value = uval, od_file_path = fp,
                         od_context = (case ctx of None \<Rightarrow> [] | Some c \<Rightarrow> c)\<rparr>;
             st = stats t
         in save_data
              (t\<lparr>tracker_session := Some (s\<lparr>decisions := decisions s @ [decision]\<rparr>),
                 events := (events t)\<lparr>log_decisions :=
                                         log_decisions (events t) @ [decision]\<rparr>,
                 stats :=
                   (if dtype = ''approve_suggestion''
                    then st\<lparr>stat_suggestions_accepted := stat_suggestions_accepted st + 1\<rparr>
                    else if dtype = ''reject_suggestion''
                    then st\<lparr>stat_suggestions_rejected := stat_suggestions_rejected st + 1\<rparr>
                    else if dtype = ''custom_name''
                    then st\<lparr>stat_suggestions_customized := stat_suggestions_customized st + 1\<rparr>
                    else st)\<rparr>)))"

text \<open>
  The names the class \<^verbatim>\<open>BehaviorTracker\<close> and its \<^verbatim>\<open>__init__\<close> define. Looking up any other
  attribute on a tracker raises \<^verbatim>\<open>AttributeError\<close>.
\<close>

definition BehaviorTracker_attributes :: "string list" where
  "BehaviorTracker_attributes =
     [''data_dir'', ''events_file'', ''sessions_file'', ''stats_file'', ''current_session'',
      ''events'', ''sessions'', ''stats'',
      ''_load_data'', ''_load_json'', ''_save_data'', ''_generate_session_id'',
      ''start_session'', ''end_session'', ''record_search'', ''record_file_access'',
      ''record_navigation'', ''record_decision'', ''get_search_patterns'',
      ''get_file_patterns'', ''get_naming_preferences'', ''get_suggestion_effectiveness'',
      ''_calculate_success_rate'', ''clear_all_data'', ''export_data'', ''get_summary'',
      ''_calculate_days_active'']"

definition tracker_getattr :: "string \<Rightarrow> error + unit" where
  "tracker_getattr name =
     (if name \<in> set BehaviorTracker_attributes then Inr ()
      else Inl (AttributeError name))"

subsection \<open>Analytics\<close>

record search_patterns =
  sp_total_searches :: nat
  failed_queries :: "string list"
  search_refinements :: "(string \<times> string) list"
  success_rate :: real

definition calculate_success_rate :: "SearchEvent list \<Rightarrow> real" where
  "calculate_success_rate ss =
     (if ss = [] then 0.0
      else real (length (filter (\<lambda>s. truthy (clicked_result s)) ss)) / real (length ss))"

text \<open>
  \<^verbatim>\<open>get_search_patterns(days)\<close>. The entry \<^verbatim>\<open>common_terms\<close> of the result, a word count that
  no other function reads, is left out.
\<close>

definition get_search_patterns :: "world \<Rightarrow> BehaviorTracker \<Rightarrow> int \<Rightarrow> search_patterns" where
  "get_search_patterns w t days =
     (let cutoff = now w - timedelta_days days;
          recent_searches = filter (\<lambda>s. se_timestamp s > cutoff) (log_searches (events t));
          failed = map query (filter (\<lambda>s. \<not> truthy (clicked_result s)) recent_searches);
          refined = List.map_filter
                      (\<lambda>s. case refined_query s of
                             None \<Rightarrow> None
                           | Some r \<Rightarrow> if r \<noteq> [] then Some (query s, r) else None)
                      recent_searches
      in \<lparr>sp_total_searches = length recent_searches,
          failed_queries = last_n 10 failed,
          search_refinements = last_n 10 refined,
          success_rate = calculate_success_rate recent_searches\<rparr>)"

record file_patterns =
  total_accesses :: nat
  by_file_type :: "(string \<times> nat) list"
  by_access_type :: "(string \<times> nat) list"
  recent_renames :: "(string option \<times> string option \<times> string) list"

definition get_file_patterns :: "world \<Rightarrow> BehaviorTracker \<Rightarrow> int \<Rightarrow> file_patterns" where
  "get_file_patterns w t days =
     (let cutoff = now w - timedelta_days days;
          recent_accesses =
            filter (\<lambda>a. fa_timestamp a > cutoff) (log_file_accesses (events t));
          renames = map (\<lambda>a. (previous_name a, new_name a, file_path a))
                      (filter (\<lambda>a. access_type a = ''rename'') recent_accesses)
      in \<lparr>total_accesses = length recent_accesses,
          by_file_type = fold (\<lambda>a d. bump (file_type a) d) recent_accesses [],
          by_access_type = fold (\<lambda>a d. bump (access_type a) d) recent_accesses [],
          recent_renames = last_n 10 renames\<rparr>)"

record learned_patterns =
  uses_dates :: nat
  uses_underscores :: nat
  uses_hyphens :: nat
  uses_camelCase :: nat
  uses_lowercase :: nat
  uses_prefixes :: "(string \<times> nat) list"
  average_length :: real
  primary_separator :: string
  date_frequency :: real

text \<open>
  The two dictionaries \<^verbatim>\<open>get_naming_preferences\<close> returns:
  \<^verbatim>\<open>{'learned_patterns': None, 'sample_size': 0}\<close> and
  \<^verbatim>\<open>{'learned_patterns': patterns, 'sample_size': len(renames)}\<close>.
\<close>

datatype naming_preferences = No_patterns | Patterns learned_patterns nat

definition sample_size :: "naming_preferences \<Rightarrow> nat" where
  "sample_size nd = (case nd of No_patterns \<Rightarrow> 0 | Patterns p n \<Rightarrow> n)"

text \<open>
  The prefix loop: for the first of \<^verbatim>\<open>'_'\<close>, \<^verbatim>\<open>'-'\<close>, \<^verbatim>\<open>' '\<close> that occurs in the name, the
  text before its first occurrence is counted when it is shorter than 15 characters.
\<close>

definition count_prefix :: "string \<Rightarrow> (string \<times> nat) list \<Rightarrow> (string \<times> nat) list" where
  "count_prefix name prefixes =
     (case filter (\<lambda>sep. sep \<in> set name) [CHR ''_'', CHR ''-'', CHR '' ''] of
        [] \<Rightarrow> prefixes
      | sep # _ \<Rightarrow>
          (let prefix = takeWhile (\<lambda>c. c \<noteq> sep) name
           in if length prefix < 15 then bump prefix prefixes else prefixes))"

text \<open>The renames \<^verbatim>\<open>get_naming_preferences\<close> reads: every rename that carries a new name.\<close>

definition rename_names :: "BehaviorTracker \<Rightarrow> string list" where
  "rename_names t =
     List.map_filter
       (\<lambda>a. if access_type a = ''rename'' \<and> truthy (new_name a) then new_name a else None)
       (log_file_accesses (events t))"

definition get_naming_preferences :: "BehaviorTracker \<Rightarrow> naming_preferences" where
  "get_naming_preferences t =
     (let renames = rename_names t
      in if renames = [] then No_patterns
         else
           (let dates = length (filter (\<lambda>name. list_ex isdigit name
                                          \<and> 4 \<le> length (filter isdigit name)) renames);
                underscores = length (filter (\<lambda>name. CHR ''_'' \<in> set name) renames);
                hyphens = length (filter (\<lambda>name. CHR ''-'' \<in> set name) renames);
                total = length renames
            in Patterns
                 \<lparr>uses_dates = dates,
                  uses_underscores = underscores,
                  uses_hyphens = hyphens,
                  uses_camelCase = length (filter (\<lambda>name. list_ex isupper (tl name)) renames),
                  uses_lowercase = length (filter (\<lambda>name. name = lower name) renames),
                  uses_prefixes =
                    take 5 (sort_key (\<lambda>kv. - int (snd kv)) (fold count_prefix renames [])),
                  average_length = real (sum_list (map length renames)) / real total,
                  primary_separator =
                    (if underscores > hyphens then ''underscore'' else ''hyphen''),
                  date_frequency = real dates / real total\<rparr>
                 total))"

record suggestion_effectiveness =
  total_suggestions :: int
  acceptance_rate :: real
  rejection_rate :: real
  customization_rate :: real
  effective :: "bool option"

definition get_suggestion_effectiveness :: "BehaviorTracker \<Rightarrow> suggestion_effectiveness" where
  "get_suggestion_effectiveness t =
     (let accepted = stat_suggestions_accepted (stats t);
          rejected = stat_suggestions_rejected (stats t);
          customized = stat_suggestions_customized (stats t);
          total = accepted + rejected + customized
      in if total = 0 then
           \<lparr>total_suggestions = 0, acceptance_rate = 0, rejection_rate = 0,
            customization_rate = 0, effective = None\<rparr>
         else
           \<lparr>total_suggestions = total,
            acceptance_rate = real_of_int accepted / real_of_int total,
            rejection_rate = real_of_int rejected / real_of_int total,
            customization_rate = real_of_int customized / real_of_int total,
            effective =
              Some (real_of_int (accepted + customized) / real_of_int total > 0.5)\<rparr>)"

section \<open>difficulty\_detector.py\<close>

record SkillAssessment =
  skill_name :: string
  score :: real
  confidence :: real
  trend :: string
  evidence :: "string list"
  last_updated :: string
  samples_count :: nat

record DifficultyReport =
  overall_skill :: real
  skills :: "(string \<times> SkillAssessment) list"
  struggles :: "(string \<times> pyval) list list"
  improvements :: "(string \<times> pyval) list list"
  regressions :: "(string \<times> pyval) list list"
  recommendations :: "string list"

text \<open>
  The detector object: \<^verbatim>\<open>self.skill_history\<close>, a \<^verbatim>\<open>defaultdict(list)\<close> of score snapshots. Its
  reference to the tracker is the argument \<open>t\<close> of the functions below.
\<close>

record DifficultyDetector =
  detector_skill_history :: "(string \<times> (real \<times> string) list) list"

definition MIN_SAMPLES :: nat where "MIN_SAMPLES = 10"
definition THRESHOLD_STRUGGLING :: real where "THRESHOLD_STRUGGLING = 0.4"
definition THRESHOLD_LEARNING :: real where "THRESHOLD_LEARNING = 0.7"
definition THRESHOLD_PROFICIENT :: real where "THRESHOLD_PROFICIENT = 0.85"

definition DifficultyDetector_init :: DifficultyDetector where
  "DifficultyDetector_init = \<lparr>detector_skill_history = []\<rparr>"

text \<open>
  \<^verbatim>\<open>_calculate_trend\<close>. The snapshot is appended to the list read from the dictionary, the
  dictionary keeps the last 10 entries as a new list, and the trend is computed on the
  list before that cut.
\<close>

definition calculate_trend ::
  "world \<Rightarrow> string \<Rightarrow> real \<Rightarrow> DifficultyDetector \<Rightarrow> string \<times> DifficultyDetector" where
  "calculate_trend w name current_score d =
     (let history = (case map_of (detector_skill_history d) name of
                       None \<Rightarrow> [] | Some h \<Rightarrow> h) @ [(current_score, now_iso w)];
          d' = d\<lparr>detector_skill_history :=
                   AList.update name (last_n 10 history) (detector_skill_history d)\<rparr>
      in if length history < 3 then (''new'', d')
         else
           (let recent = map fst (last_n 3 history);
                older = (if length history > 3
                         then map fst (take (length history - 3) history) else recent);
                recent_avg = sum_list recent / real (length recent);
                older_avg = sum_list older / real (length older);
                diff = recent_avg - older_avg
            in (if diff > 0.1 then ''improving''
                else if diff < - 0.1 then ''regressing''
                else ''stable'', d')))"

definition assess_search_ability ::
  "world \<Rightarrow> BehaviorTracker \<Rightarrow> DifficultyDetector \<Rightarrow> SkillAssessment \<times> DifficultyDetector" where
  "assess_search_ability w t d =
     (let patterns = get_search_patterns w t 30;
          total = sp_total_searches patterns
      in if total < 3 then
           (\<lparr>skill_name = ''search_ability'', score = 0.5, confidence = 0.1, trend = ''new'',
             evidence = [''Not enough search data''], last_updated = now_iso w,
             samples_count = total\<rparr>, d)
         else
           (let success = success_rate patterns;
                refinement_rate = real (length (search_refinements patterns)) / real total;
                failure_rate = real (length (failed_queries patterns)) / real total;
                sc = success * 0.5 + (1 - refinement_rate) * 0.25 + (1 - failure_rate) * 0.25
            in case calculate_trend w ''search_ability'' sc d of (tr, d') \<Rightarrow>
                 (\<lparr>skill_name = ''search_ability'', score = sc,
                   confidence = min (real total / 20) 1.0, trend = tr,
                   evidence = [''Search success rate: '' @ percent0 w success,
                               ''Search refinement rate: '' @ percent0 w refinement_rate,
                               ''Abandoned searches: '' @ percent0 w failure_rate],
                   last_updated = now_iso w, samples_count = total\<rparr>, d')))"

text \<open>
  \<^verbatim>\<open>_assess_naming_consistency\<close>. A sample size of 5 or more comes with learned patterns
  only (\<^const>\<open>sample_size\<close> of \<^const>\<open>No_patterns\<close> is 0), so the computed branch always
  has them.
\<close>

definition assess_naming_consistency ::
  "world \<Rightarrow> BehaviorTracker \<Rightarrow> DifficultyDetector \<Rightarrow> SkillAssessment \<times> DifficultyDetector" where
  "assess_naming_consistency w t d =
     (let naming_data = get_naming_preferences t;
          n = sample_size naming_data
      in case (if n < 5 then None
               else case naming_data of No_patterns \<Rightarrow> None | Patterns p m \<Rightarrow> Some p) of
           None \<Rightarrow>
             (\<lparr>skill_name = ''naming_consistency'', score = 0.5, confidence = 0.1,
               trend = ''new'', evidence = [''Not enough naming data''],
               last_updated = now_iso w, samples_count = n\<rparr>, d)
         | Some patterns \<Rightarrow>
             (let underscore_pct = real (uses_underscores patterns) / real n;
                  hyphen_pct = real (uses_hyphens patterns) / real n;
                  separator_consistency =
                    max (max underscore_pct hyphen_pct) (1 - underscore_pct - hyphen_pct);
                  lowercase_pct = real (uses_lowercase patterns) / real n;
                  case_consistency = max lowercase_pct (1 - lowercase_pct);
                  has_prefixes = (case uses_prefixes patterns of
                                    [] \<Rightarrow> False | kv # _ \<Rightarrow> snd kv \<ge> 3);
                  sc = separator_consistency * 0.4 + case_consistency * 0.3
                       + (if has_prefixes then 0.3 else 0.15)
              in case calculate_trend w ''naming_consistency'' sc d of (tr, d') \<Rightarrow>
                   (\<lparr>skill_name = ''naming_consistency'', score = sc,
                     confidence = min (real n / 15) 1.0, trend = tr,
                     evidence =
                       [''Separator consistency: '' @ percent0 w separator_consistency,
                        ''Case consistency: '' @ percent0 w case_consistency,
                        ''Uses category prefixes: ''
                          @ (if has_prefixes then ''Yes'' else ''No'')],
                     last_updated = now_iso w, samples_count = n\<rparr>, d')))"

text \<open>\<^verbatim>\<open>folder_to_types[folder].add(file_type)\<close> on a \<^verbatim>\<open>defaultdict(set)\<close>.\<close>

definition add_type ::
  "string \<Rightarrow> string \<Rightarrow> (string \<times> string list) list \<Rightarrow> (string \<times> string list) list" where
  "add_type folder ty d =
     AList.update folder
       (List.insert ty (case map_of d folder of None \<Rightarrow> [] | Some tys \<Rightarrow> tys)) d"

definition assess_folder_organization ::
  "world \<Rightarrow> BehaviorTracker \<Rightarrow> DifficultyDetector \<Rightarrow> SkillAssessment \<times> DifficultyDetector" where
  "assess_folder_organization w t d =
     (let evs = log_navigation (events t);
          accesses = log_file_accesses (events t)
      in if length evs < 5 then
           (\<lparr>skill_name = ''folder_organization'', score = 0.5, confidence = 0.1,
             trend = ''new'', evidence = [''Not enough navigation data''],
             last_updated = now_iso w, samples_count = length evs\<rparr>, d)
         else
           (let avg_nav_time = sum_list (map time_spent_seconds (last_n 20 evs))
                                 / real (min (length evs) 20);
                time_score = 1.0 - min (avg_nav_time / 60) 1.0;
                paths = filter (\<lambda>p. p \<noteq> []) (map file_path (last_n 50 accesses));
                avg_depth = real (sum_list (map (\<lambda>p. length (path_parts w p)) paths))
                              / real (length paths);
                depth_score = (if paths \<noteq> [] then 1.0 - min ((avg_depth - 3) / 7) 1.0
                               else 0.5);
                folder_to_types =
                  fold (\<lambda>a m. if file_path a \<noteq> []
                              then add_type (path_parent w (file_path a)) (file_type a) m
                              else m)
                    (last_n 100 accesses) [];
                type_folders = fold (\<lambda>ft m. fold bump (snd ft) m) folder_to_types [];
                max_scatter = fold max (map snd type_folders) 0;
                scatter_score = (if folder_to_types \<noteq> []
                                 then 1.0 - min ((real max_scatter - 3) / 10) 1.0 else 0.5);
                sc = time_score * 0.3 + depth_score * 0.35 + scatter_score * 0.35
            in case calculate_trend w ''folder_organization'' sc d of (tr, d') \<Rightarrow>
                 (\<lparr>skill_name = ''folder_organization'', score = sc,
                   confidence = min (real (length evs) / 20) 1.0, trend = tr,
                   evidence =
                     [''Avg navigation time: '' @ fixed1 w avg_nav_time @ ''s'']
                     @ (if paths \<noteq> [] then [''Avg folder depth: '' @ fixed1 w avg_depth]
                        else [])
                     @ (if folder_to_types \<noteq> []
                        then [''Max file type scatter: '' @ decimal w max_scatter
                                @ '' folders'']
                        else []),
                   last_updated = now_iso w, samples_count = length evs\<rparr>, d')))"

definition assess_file_management ::
  "world \<Rightarrow> BehaviorTracker \<Rightarrow> DifficultyDetector \<Rightarrow> SkillAssessment \<times> DifficultyDetector" where
  "assess_file_management w t d =
     (let fp = get_file_patterns w t 30;
          eff = get_suggestion_effectiveness t;
          total = total_accesses fp
      in if total < 5 then
           (\<lparr>skill_name = ''file_management'', score = 0.5, confidence = 0.1,
             trend = ''new'', evidence = [''Not enough file access data''],
             last_updated = now_iso w, samples_count = total\<rparr>, d)
         else
           (let renames = (case map_of (by_access_type fp) ''rename'' of
                             None \<Rightarrow> 0 | Some n \<Rightarrow> n);
                opens = (case map_of (by_access_type fp) ''open'' of
                           None \<Rightarrow> 1 | Some n \<Rightarrow> n);
                rename_ratio = real renames / real (max opens 1);
                rename_score = 1.0 - min (rename_ratio / 0.3) 1.0;
                suggestion_score =
                  (if total_suggestions eff > 0
                   then acceptance_rate eff * 0.7 + customization_rate eff * 0.3 else 0.5);
                operation_types = length (filter (\<lambda>v. v > 0) (map snd (by_access_type fp)));
                variety_score = min (real operation_types / 4) 1.0;
                sc = rename_score * 0.4 + suggestion_score * 0.35 + variety_score * 0.25
            in case calculate_trend w ''file_management'' sc d of (tr, d') \<Rightarrow>
                 (\<lparr>skill_name = ''file_management'', score = sc,
                   confidence = min (real total / 30) 1.0, trend = tr,
                   evidence =
                     [''Rename ratio: '' @ percent0 w rename_ratio]
                     @ (if total_suggestions eff > 0
                        then [''Suggestion acceptance: '' @ percent0 w (acceptance_rate eff),
                              ''Suggestion customization: ''
                                @ percent0 w (customization_rate eff)]
                        else [])
                     @ [''Operation variety: '' @ decimal w operation_types @ '' types''],
                   last_updated = now_iso w, samples_count = total\<rparr>, d')))"

text \<open>\<^verbatim>\<open>name.replace('_', ' ')\<close>.\<close>

definition spaced :: "string \<Rightarrow> string" where
  "spaced name = map (\<lambda>c. if c = CHR ''_'' then CHR '' '' else c) name"

definition identify_struggles ::
  "(string \<times> SkillAssessment) list \<Rightarrow> (string \<times> pyval) list list" where
  "identify_struggles sk =
     map snd
       (sort_key fst
          (map (\<lambda>na. (score (snd na),
                       [(''skill'', PStr (fst na)),
                        (''score'', PNum (score (snd na))),
                        (''evidence'', PStrs (evidence (snd na))),
                        (''severity'',
                         PStr (if score (snd na) < 0.25 then ''high'' else ''medium''))]))
             (filter (\<lambda>na. score (snd na) < THRESHOLD_STRUGGLING \<and> confidence (snd na) > 0.3)
                sk)))"

definition identify_improvements ::
  "(string \<times> SkillAssessment) list \<Rightarrow> (string \<times> pyval) list list" where
  "identify_improvements sk =
     map (\<lambda>na. [(''skill'', PStr (fst na)),
                 (''current_score'', PNum (score (snd na))),
                 (''message'', PStr (''Great progress on '' @ spaced (fst na) @ ''!''))])
       (filter (\<lambda>na. trend (snd na) = ''improving'') sk)"

definition identify_regressions ::
  "(string \<times> SkillAssessment) list \<Rightarrow> (string \<times> pyval) list list" where
  "identify_regressions sk =
     map (\<lambda>na. [(''skill'', PStr (fst na)),
                 (''current_score'', PNum (score (snd na))),
                 (''message'',
                  PStr (''Noticed some regression in '' @ spaced (fst na)
                        @ ''. Let me help!'')),
                 (''should_increase_suggestions'', PBool True)])
       (filter (\<lambda>na. trend (snd na) = ''regressing'' \<and> confidence (snd na) > 0.4) sk)"

text \<open>A comprehension whose element expression can raise: the first exception ends it.\<close>

fun collect :: "(error + 'a) list \<Rightarrow> error + 'a list" where
  "collect [] = Inr []"
| "collect (Inl e # rs) = Inl e"
| "collect (Inr x # rs) = (case collect rs of Inl e \<Rightarrow> Inl e | Inr xs \<Rightarrow> Inr (x # xs))"

text \<open>The \<^verbatim>\<open>if\<close> chain on \<^verbatim>\<open>struggle["skill"]\<close> in \<^verbatim>\<open>_generate_recommendations\<close>.\<close>

definition recommendation_for :: "pyval \<Rightarrow> string list" where
  "recommendation_for skill =
     (if skill = PStr ''search_ability'' then
        [''Try using more specific keywords when searching. ''
         @ ''I'll show preview snippets to help you identify the right files.'']
      else if skill = PStr ''naming_consistency'' then
        [''I noticed varying naming patterns. Consider using a consistent format like: ''
         @ ''CATEGORY_topic_YYYYMMDD (e.g., NOTES_meeting_20260209)'']
      else if skill = PStr ''folder_organization'' then
        [''Some files seem scattered. Would you like me to suggest a folder structure ''
         @ ''based on your file types and topics?'']
      else if skill = PStr ''file_management'' then
        [''You're renaming files frequently. I can suggest better names upfront ''
         @ ''to save you time.'']
      else [])"

definition generate_recommendations ::
  "(string \<times> SkillAssessment) list \<Rightarrow> (string \<times> pyval) list list \<Rightarrow> error + string list" where
  "generate_recommendations sk strug =
     (case collect (map (\<lambda>struggle. getitem struggle ''skill'') (take 2 strug)) of
        Inl e \<Rightarrow> Inl e
      | Inr names \<Rightarrow>
          Inr (concat (map recommendation_for names)
               @ (case filter (\<lambda>a. trend a = ''improving'') (map snd sk) of
                    [] \<Rightarrow> []
                  | a # _ \<Rightarrow>
                      [''You're getting better at '' @ spaced (skill_name a)
                       @ ''! Keep it up.''])))"

text \<open>
  \<^verbatim>\<open>assess_all_skills\<close>. The dictionary literal evaluates the four assessors in order, each
  on the detector the one before left.
\<close>

definition assess_all_skills ::
  "world \<Rightarrow> BehaviorTracker \<Rightarrow> DifficultyDetector \<Rightarrow>
   (error + DifficultyReport) \<times> DifficultyDetector" where
  "assess_all_skills w t d0 =
     (case assess_search_ability w t d0 of (a1, d1) \<Rightarrow>
      case assess_naming_consistency w t d1 of (a2, d2) \<Rightarrow>
      case assess_folder_organization w t d2 of (a3, d3) \<Rightarrow>
      case assess_file_management w t d3 of (a4, d4) \<Rightarrow>
        (let sk = [(''search_ability'', a1), (''naming_consistency'', a2),
                   (''folder_organization'', a3), (''file_management'', a4)];
             valid_skills = filter (\<lambda>a. confidence a > 0.3) (map snd sk);
             overall = (if valid_skills \<noteq> []
                        then sum_list (map (\<lambda>a. score a * confidence a) valid_skills)
                             / sum_list (map confidence valid_skills)
                        else 0.5);
             strug = identify_struggles sk
         in (case generate_recommendations sk strug of
               Inl e \<Rightarrow> Inl e
             | Inr recs \<Rightarrow>
                 Inr \<lparr>overall_skill = overall, skills = sk, struggles = strug,
                      improvements = identify_improvements sk,
                      regressions = identify_regressions sk,
                      recommendations = recs\<rparr>,
             d4)))"

section \<open>suggestion\_engine.py\<close>

record NamingSuggestion =
  suggested_name :: string
  original_name :: string
  naming_confidence :: real
  reasoning :: string
  alternatives :: "string list"
  convention_used :: string
  category :: string

record FolderSuggestion =
  suggested_path :: string
  original_path :: string
  folder_reasoning :: string
  folder_confidence :: real
  creates_new_folder :: bool
  moves_to_existing :: bool

text \<open>
  The dictionary \<^verbatim>\<open>self.user_conventions\<close> when it is not empty. The separator is one
  character, \<^verbatim>\<open>'_'\<close> or \<^verbatim>\<open>'-'\<close>.
\<close>

record user_conventions =
  separator :: char
  conv_uses_dates :: bool
  case_style :: string
  common_prefixes :: "string list"
  avg_length :: real

text \<open>The engine object; \<^const>\<open>None\<close> is the empty dictionary of conventions.\<close>

record SuggestionEngine =
  conventions :: "user_conventions option"

definition learn_user_conventions :: "BehaviorTracker \<Rightarrow> user_conventions option" where
  "learn_user_conventions t =
     (case get_naming_preferences t of
        No_patterns \<Rightarrow> None
      | Patterns p n \<Rightarrow>
          Some \<lparr>separator = (if uses_underscores p > uses_hyphens p
                             then CHR ''_'' else CHR ''-''),
                conv_uses_dates = (date_frequency p > 0.3),
                case_style = (if uses_lowercase p > uses_camelCase p
                              then ''lowercase'' else ''camelCase''),
                common_prefixes = map fst (uses_prefixes p),
                avg_length = average_length p\<rparr>)"

definition SuggestionEngine_init :: "BehaviorTracker \<Rightarrow> SuggestionEngine" where
  "SuggestionEngine_init t = \<lparr>conventions = learn_user_conventions t\<rparr>"

text \<open>
  The argument \<^verbatim>\<open>content_analysis\<close> as a caller passes it: nothing, a dictionary with the
  keys the engine reads (each may be missing), or, as the orchestrator does, a string.
\<close>

record content_analysis =
  ca_title :: "string option"
  ca_topics :: "string list option"
  ca_type :: "string option"
  ca_date :: "string option"

datatype content_arg = Content_none | Content_str string | Content_dict content_analysis

definition content_truthy :: "content_arg \<Rightarrow> bool" where
  "content_truthy c =
     (case c of
        Content_none \<Rightarrow> False
      | Content_str s \<Rightarrow> s \<noteq> []
      | Content_dict d \<Rightarrow>
          ca_title d \<noteq> None \<or> ca_topics d \<noteq> None \<or> ca_type d \<noteq> None \<or> ca_date d \<noteq> None)"

definition isspace :: "char \<Rightarrow> bool" where
  "isspace c = (let n = (of_char c :: nat) in (9 \<le> n \<and> n \<le> 13) \<or> (28 \<le> n \<and> n \<le> 32))"

definition upper_char :: "char \<Rightarrow> char" where
  "upper_char c = (let n = (of_char c :: nat)
                   in if 97 \<le> n \<and> n \<le> 122 then char_of (n - 32) else c)"

text \<open>\<^verbatim>\<open>re.sub(r"[\s\-\.]+", sep, text)\<close>: each maximal run of matching characters becomes
  one separator. The flag says that the character before was part of a run.\<close>

primrec collapse_runs :: "(char \<Rightarrow> bool) \<Rightarrow> char \<Rightarrow> bool \<Rightarrow> string \<Rightarrow> string" where
  "collapse_runs p sep in_run [] = []"
| "collapse_runs p sep in_run (c # cs) =
     (if p c then (if in_run then collapse_runs p sep True cs
                   else sep # collapse_runs p sep True cs)
      else c # collapse_runs p sep False cs)"

text \<open>\<^verbatim>\<open>text.rsplit(sep, 1)[0]\<close> and \<^verbatim>\<open>text.strip(sep)\<close> for a separator of one character.\<close>

definition before_last :: "char \<Rightarrow> string \<Rightarrow> string" where
  "before_last sep s =
     (if sep \<in> set s then rev (tl (dropWhile (\<lambda>c. c \<noteq> sep) (rev s))) else s)"

definition strip_char :: "char \<Rightarrow> string \<Rightarrow> string" where
  "strip_char sep s = rev (dropWhile (\<lambda>c. c = sep) (rev (dropWhile (\<lambda>c. c = sep) s)))"

definition the_separator :: "SuggestionEngine \<Rightarrow> char" where
  "the_separator se = (case conventions se of None \<Rightarrow> CHR ''_'' | Some uc \<Rightarrow> separator uc)"

text \<open>
  \<^verbatim>\<open>_clean_for_filename\<close>. \<^verbatim>\<open>max_len = min(avg_length, 100)\<close> is the learned average, a float,
  unless that exceeds 100; without conventions it is the integer 50. A slice
  \<^verbatim>\<open>text[:max_len]\<close> with a float bound raises \<^verbatim>\<open>TypeError\<close>.
\<close>

definition clean_for_filename :: "SuggestionEngine \<Rightarrow> string \<Rightarrow> error + string" where
  "clean_for_filename se text0 =
     (if text0 = [] then Inr ''untitled''
      else
        (let sep = the_separator se;
             text1 = filter (\<lambda>c. c \<notin> set [CHR ''<'', CHR ''>'', CHR '':'', CHR 0x22, CHR ''/'',
                                              CHR 0x5C, CHR ''|'', CHR ''?'', CHR ''*'']) text0;
             text2 = collapse_runs (\<lambda>c. isspace c \<or> c = CHR ''-'' \<or> c = CHR ''.'') sep False
                       text1;
             text3 = (if (case conventions se of None \<Rightarrow> ''lowercase''
                          | Some uc \<Rightarrow> case_style uc) = ''lowercase''
                      then lower text2 else text2)
         in case conventions se of
              None \<Rightarrow>
                Inr (strip_char sep
                       (if length text3 > 50 then before_last sep (take 50 text3) else text3))
            | Some uc \<Rightarrow>
                if 100 < avg_length uc then
                  Inr (strip_char sep
                         (if length text3 > 100 then before_last sep (take 100 text3)
                          else text3))
                else if real (length text3) > avg_length uc then
                  Inl (TypeError ''slice indices must be integers'')
                else Inr (strip_char sep text3)))"

definition infer_type_from_extension :: "string \<Rightarrow> string" where
  "infer_type_from_extension extension =
     (case map_of
        [(''docx'', ''document''), (''doc'', ''document''), (''pdf'', ''document''),
         (''txt'', ''document''), (''md'', ''document''), (''rtf'', ''document''),
         (''odt'', ''document''), (''xlsx'', ''spreadsheet''), (''xls'', ''spreadsheet''),
         (''csv'', ''spreadsheet''), (''ods'', ''spreadsheet''), (''pptx'', ''presentation''),
         (''ppt'', ''presentation''), (''odp'', ''presentation''), (''py'', ''code''),
         (''js'', ''code''), (''ts'', ''code''), (''java'', ''code''), (''cpp'', ''code''),
         (''c'', ''code''), (''go'', ''code''), (''rs'', ''code''), (''jpg'', ''image''),
         (''jpeg'', ''image''), (''png'', ''image''), (''gif'', ''image''), (''svg'', ''image''),
         (''webp'', ''image'')]
        (dropWhile (\<lambda>c. c = CHR ''.'') (lower extension)) of
        None \<Rightarrow> ''file''
      | Some ty \<Rightarrow> ty)"

text \<open>The substring test \<^verbatim>\<open>keyword in topic\<close>.\<close>

primrec contains :: "string \<Rightarrow> string \<Rightarrow> bool" where
  "contains sub [] = (sub = [])"
| "contains sub (c # cs) = (take (length sub) (c # cs) = sub \<or> contains sub cs)"

definition detect_category :: "string \<Rightarrow> string list \<Rightarrow> string \<Rightarrow> string" where
  "detect_category ftype topics extension =
     (case concat
             (map (\<lambda>topic.
                     map snd
                       (filter (\<lambda>kc. contains (fst kc) (lower topic))
                          [(''meeting'', ''meetings''), (''notes'', ''notes''),
                           (''report'', ''reports''), (''budget'', ''finance''),
                           (''invoice'', ''finance''), (''design'', ''design''),
                           (''test'', ''tests''), (''readme'', ''documentation''),
                           (''config'', ''config'')]))
                topics) of
        cat # _ \<Rightarrow> cat
      | [] \<Rightarrow>
          (case map_of
                  [(''document'', ''documents''), (''spreadsheet'', ''data''),
                   (''presentation'', ''presentations''), (''code'', ''code''),
                   (''image'', ''images'')] ftype of
             None \<Rightarrow> ''misc''
           | Some cat \<Rightarrow> cat))"

definition infer_category_prefix :: "string \<Rightarrow> string list \<Rightarrow> string" where
  "infer_category_prefix ftype topics =
     (case map_of
        [(''documents'', ''DOCS''), (''data'', ''DATA''), (''presentations'', ''PRES''),
         (''code'', ''CODE''), (''images'', ''IMG''), (''meetings'', ''MTG''),
         (''notes'', ''NOTES''), (''reports'', ''RPT''), (''finance'', ''FIN''),
         (''design'', ''DSGN''), (''tests'', ''TEST''), (''documentation'', ''DOCS''),
         (''config'', ''CFG'')]
        (detect_category ftype topics []) of
        None \<Rightarrow> ''MISC''
      | Some pre \<Rightarrow> pre)"

definition choose_convention :: "SuggestionEngine \<Rightarrow> string \<Rightarrow> string list \<Rightarrow> string" where
  "choose_convention se ftype topics =
     (if (case conventions se of None \<Rightarrow> False | Some uc \<Rightarrow> conv_uses_dates uc)
      then ''date_prefix''
      else if (case conventions se of None \<Rightarrow> False | Some uc \<Rightarrow> common_prefixes uc \<noteq> [])
      then ''category_first''
      else (case map_of
                   [(''document'', ''date_prefix''), (''code'', ''semantic''),
                    (''spreadsheet'', ''category_first''), (''image'', ''semantic''),
                    (''presentation'', ''project_based'')] ftype of
              None \<Rightarrow> ''category_first''
            | Some conv \<Rightarrow> conv))"

definition apply_convention ::
  "SuggestionEngine \<Rightarrow> string \<Rightarrow> string \<Rightarrow> string list \<Rightarrow> string \<Rightarrow> string \<Rightarrow> error + string"
  where
  "apply_convention se convention title topics ftype date =
     (case clean_for_filename se title of
        Inl e \<Rightarrow> Inl e
      | Inr clean_title \<Rightarrow>
          (let sep = the_separator se in
           if convention = ''date_prefix'' then Inr (date @ [sep] @ clean_title)
           else if convention = ''category_first'' then
             (case clean_for_filename se
                     (case topics of [] \<Rightarrow> ''general'' | tp # _ \<Rightarrow> tp) of
                Inl e \<Rightarrow> Inl e
              | Inr topic \<Rightarrow>
                  Inr (infer_category_prefix ftype topics @ [sep] @ topic @ [sep]
                       @ clean_title))
           else if convention = ''project_based'' then
             (case clean_for_filename se
                     (case topics of [] \<Rightarrow> ''misc'' | tp # _ \<Rightarrow> tp) of
                Inl e \<Rightarrow> Inl e
              | Inr project \<Rightarrow> Inr (project @ [sep] @ ftype @ [sep] @ clean_title))
           else Inr clean_title))"

definition calculate_naming_confidence ::
  "string \<Rightarrow> string \<Rightarrow> content_analysis option \<Rightarrow> real" where
  "calculate_naming_confidence original suggested content =
     (let c0 = (0.5::real);
          c1 = (case content of
                  None \<Rightarrow> c0
                | Some d \<Rightarrow>
                    (let c = (if truthy (ca_title d) then c0 + 0.2 else c0)
                     in if (case ca_topics d of None \<Rightarrow> False | Some ts \<Rightarrow> ts \<noteq> [])
                        then c + 0.1 else c));
          c2 = (if lower original \<noteq> lower suggested then c1 + 0.1 else c1);
          c3 = (if length suggested < 5 then c2 - 0.2 else c2)
      in min (max c3 0.1) 1.0)"

definition generate_naming_reasoning :: "string \<Rightarrow> string \<Rightarrow> string \<Rightarrow> string" where
  "generate_naming_reasoning convention title cat =
     (if convention = ''date_prefix''
      then ''Date prefix for chronological sorting. Category: '' @ cat
      else if convention = ''category_first''
      then ''Category prefix ('' @ map upper_char cat @ '') for easy grouping''
      else if convention = ''project_based'' then ''Project-based naming for related files''
      else if convention = ''semantic''
      then ''Descriptive name based on content: '' @ take 30 title @ ''...''
      else ''Based on detected content and category: '' @ cat)"

text \<open>
  \<^verbatim>\<open>suggest_filename(file_path, content_analysis, force_convention)\<close>. A truthy
  \<^verbatim>\<open>content_analysis\<close> is read with \<^verbatim>\<open>.get\<close>, which a string does not have.
\<close>

definition suggest_filename ::
  "world \<Rightarrow> SuggestionEngine \<Rightarrow> string \<Rightarrow> content_arg \<Rightarrow> string option \<Rightarrow>
   error + NamingSuggestion" where
  "suggest_filename w se fpath content force_convention =
     (let orig = path_stem w fpath;
          extension = path_suffix w fpath
      in case (if content_truthy content then
                 (case content of
                    Content_dict d \<Rightarrow>
                      Inr ((case ca_title d of None \<Rightarrow> [] | Some x \<Rightarrow> x),
                           (case ca_topics d of None \<Rightarrow> [] | Some x \<Rightarrow> x),
                           (case ca_type d of None \<Rightarrow> ''document'' | Some x \<Rightarrow> x),
                           ca_date d, Some d)
                  | _ \<Rightarrow> Inl (AttributeError ''get''))
               else Inr (orig, [], infer_type_from_extension extension, None, None)) of
           Inl e \<Rightarrow> Inl e
         | Inr (title, topics, ftype, date_hint, analysis) \<Rightarrow>
             (let convention = (if truthy force_convention
                                then (case force_convention of Some f \<Rightarrow> f | None \<Rightarrow> [])
                                else choose_convention se ftype topics);
                  date = (case date_hint of
                            None \<Rightarrow> today w
                          | Some dh \<Rightarrow> if dh \<noteq> [] then dh else today w)
              in case apply_convention se convention title topics ftype date of
                   Inl e \<Rightarrow> Inl e
                 | Inr suggested \<Rightarrow>
                     (case collect
                             (map (\<lambda>alt. apply_convention se alt title topics ftype date)
                                (filter (\<lambda>alt. alt \<noteq> convention)
                                   [''date_prefix'', ''category_first'', ''project_based'',
                                    ''semantic''])) of
                        Inl e \<Rightarrow> Inl e
                      | Inr alt_names \<Rightarrow>
                          (let cat = detect_category ftype topics extension
                           in Inr \<lparr>suggested_name = suggested @ extension,
                                   original_name = orig @ extension,
                                   naming_confidence =
                                     calculate_naming_confidence orig suggested analysis,
                                   reasoning =
                                     generate_naming_reasoning convention title cat,
                                   alternatives =
                                     take 3 (map (\<lambda>a. a @ extension)
                                               (filter (\<lambda>a. a \<noteq> suggested) alt_names)),
                                   convention_used = convention,
                                   category = cat\<rparr>))))"

text \<open>
  \<^verbatim>\<open>suggest_folder(file_path, base_directory)\<close> as the orchestrator calls it: the second
  argument is its \<^verbatim>\<open>available_folders\<close>, \<^verbatim>\<open>None\<close> or a list of strings. After the category
  is detected, \<^verbatim>\<open>_analyze_existing_folders\<close> starts with \<^verbatim>\<open>Path(base_directory)\<close>, which
  raises \<^verbatim>\<open>TypeError\<close> for both. The walk of the directory, which needs a path string, is
  not part of the model.
\<close>

definition suggest_folder ::
  "world \<Rightarrow> SuggestionEngine \<Rightarrow> string \<Rightarrow> string list option \<Rightarrow> error + FolderSuggestion"
  where
  "suggest_folder w se fpath base_directory =
     Inl (TypeError ''expected str, bytes or os.PathLike object'')"

section \<open>adaptive\_coach.py\<close>

record CoachingSession =
  coaching_session_id :: string
  started_at :: string
  skill_snapshot :: "(string \<times> real) list"
  suggestions_offered :: int
  suggestions_accepted :: int
  suggestions_dismissed :: int

text \<open>The field \<^verbatim>\<open>content\<close> holds \<^verbatim>\<open>asdict\<close> of the engine's suggestion.\<close>

datatype suggestion_content = Naming_content NamingSuggestion | Folder_content FolderSuggestion

record SuggestionResult =
  suggestion_type :: string
  content :: "suggestion_content option"
  intensity :: real
  reason :: string
  skill_level :: string
  should_show :: bool

text \<open>An entry \<^verbatim>\<open>{'date': ..., 'score': ..., 'trend': ...}\<close> of the persisted skill history.\<close>

record history_entry =
  date :: string
  entry_score :: real
  entry_trend :: string

record CoachingState =
  total_suggestions_offered :: int
  total_suggestions_accepted :: int
  total_suggestions_dismissed :: int
  last_assessment :: "string option"
  skill_history :: "(string \<times> history_entry list) list"
  fade_out_overrides :: "(string \<times> bool) list"

definition CoachingState_default :: CoachingState where
  "CoachingState_default =
     \<lparr>total_suggestions_offered = 0, total_suggestions_accepted = 0,
      total_suggestions_dismissed = 0, last_assessment = None, skill_history = [],
      fade_out_overrides = []\<rparr>"

text \<open>
  The orchestrator object. \<open>state_file\<close> is the content of \<^verbatim>\<open>coaching_state.json\<close>, which
  only the orchestrator writes.
\<close>

record AdaptiveCoach =
  tracker :: BehaviorTracker
  detector :: DifficultyDetector
  suggester :: SuggestionEngine
  state :: CoachingState
  current_session :: "CoachingSession option"
  cached_report :: "DifficultyReport option"
  cache_time :: "int option"
  state_file :: "json file_content"

definition INTENSITY_FULL :: real where "INTENSITY_FULL = 1.0"
definition INTENSITY_REGULAR :: real where "INTENSITY_REGULAR = 0.7"
definition INTENSITY_OCCASIONAL :: real where "INTENSITY_OCCASIONAL = 0.3"
definition INTENSITY_MINIMAL :: real where "INTENSITY_MINIMAL = 0.1"
definition INTENSITY_NONE :: real where "INTENSITY_NONE = 0.0"

definition SKILL_STRUGGLING :: real where "SKILL_STRUGGLING = 0.4"
definition SKILL_LEARNING :: real where "SKILL_LEARNING = 0.7"
definition SKILL_PROFICIENT :: real where "SKILL_PROFICIENT = 0.85"

text \<open>The first \<^verbatim>\<open>if\<close> chain of \<^verbatim>\<open>_calculate_intensity\<close>: the score band.\<close>

definition base_band :: "real \<Rightarrow> real \<times> string" where
  "base_band s =
     (if s < SKILL_STRUGGLING then (INTENSITY_FULL, ''struggling'')
      else if s < SKILL_LEARNING then (INTENSITY_REGULAR, ''learning'')
      else if s < SKILL_PROFICIENT then (INTENSITY_OCCASIONAL, ''proficient'')
      else (INTENSITY_MINIMAL, ''mastered''))"

text \<open>The second chain: the adjustment for the trend, with the downgrade of the label.\<close>

definition adjust_trend :: "string \<Rightarrow> real \<times> string \<Rightarrow> real \<times> string" where
  "adjust_trend tr bl =
     (case bl of (base_intensity, level) \<Rightarrow>
        if tr = ''regressing'' then
          (min (base_intensity + 0.2) INTENSITY_FULL,
           if level = ''mastered'' then ''proficient'' else level)
        else if tr = ''improving'' then (max (base_intensity - 0.1) INTENSITY_NONE, level)
        else (base_intensity, level))"

definition calculate_intensity :: "SkillAssessment \<Rightarrow> real \<times> string" where
  "calculate_intensity assessment =
     (case adjust_trend (trend assessment) (base_band (score assessment)) of
        (adjusted, level) \<Rightarrow>
          (if confidence assessment < 0.5 then max adjusted INTENSITY_REGULAR else adjusted,
           level))"

definition should_show_at_intensity :: "world \<Rightarrow> real \<Rightarrow> bool" where
  "should_show_at_intensity w i = (random w < i)"

definition safe_divide :: "int \<Rightarrow> int \<Rightarrow> real" where
  "safe_divide a b = (if b > 0 then real_of_int a / real_of_int b else 0.0)"

subsection \<open>State persistence\<close>

definition entry_json :: "history_entry \<Rightarrow> json" where
  "entry_json e =
     JObj [(''date'', JStr (date e)), (''score'', JFloat (entry_score e)),
           (''trend'', JStr (entry_trend e))]"

text \<open>The dictionary \<^verbatim>\<open>_save_state\<close> hands to \<^verbatim>\<open>json.dump\<close>.\<close>

definition state_document :: "CoachingState \<Rightarrow> json" where
  "state_document st =
     JObj [(''total_suggestions_offered'', JInt (total_suggestions_offered st)),
           (''total_suggestions_accepted'', JInt (total_suggestions_accepted st)),
           (''total_suggestions_dismissed'', JInt (total_suggestions_dismissed st)),
           (''last_assessment'',
            (case last_assessment st of None \<Rightarrow> JNull | Some x \<Rightarrow> JStr x)),
           (''skill_history'',
            JObj (map (\<lambda>kv. (fst kv, JArr (map entry_json (snd kv)))) (skill_history st))),
           (''fade_out_overrides'',
            JObj (map (\<lambda>kv. (fst kv, JBool (snd kv))) (fade_out_overrides st)))]"

definition save_state :: "AdaptiveCoach \<Rightarrow> AdaptiveCoach" where
  "save_state c = c\<lparr>state_file := Parsed (state_document (state c))\<rparr>"

text \<open>
  What \<^verbatim>\<open>_load_state\<close> puts into the fields of \<^verbatim>\<open>CoachingState(...)\<close>: the values
  \<^verbatim>\<open>data.get(key, default)\<close> returns, of whatever JSON type the file gives them.
\<close>

record loaded_state =
  loaded_offered :: json
  loaded_accepted :: json
  loaded_dismissed :: json
  loaded_last_assessment :: json
  loaded_skill_history :: json
  loaded_fade_out_overrides :: json

definition dict_get :: "(string \<times> json) list \<Rightarrow> string \<Rightarrow> json \<Rightarrow> json" where
  "dict_get d k dflt = (case map_of d k of None \<Rightarrow> dflt | Some v \<Rightarrow> v)"

definition loaded_default :: loaded_state where
  "loaded_default =
     \<lparr>loaded_offered = JInt 0, loaded_accepted = JInt 0, loaded_dismissed = JInt 0,
      loaded_last_assessment = JNull, loaded_skill_history = JObj [],
      loaded_fade_out_overrides = JObj []\<rparr>"

text \<open>
  \<^verbatim>\<open>_load_state\<close>. A missing file gives the default state. The \<^verbatim>\<open>try\<close> catches
  \<^verbatim>\<open>json.JSONDecodeError\<close> and \<^verbatim>\<open>KeyError\<close> only: a file that cannot be opened or read raises
  out of the function, and so does \<^verbatim>\<open>data.get\<close> when the JSON value is not an object.
\<close>

definition load_state :: "json file_content \<Rightarrow> error + loaded_state" where
  "load_state fc =
     (case fc of
        Absent \<Rightarrow> Inr loaded_default
      | Unreadable \<Rightarrow> Inl OSError
      | Not_json \<Rightarrow> Inr loaded_default
      | Parsed data \<Rightarrow>
          (case data of
             JObj d \<Rightarrow>
               Inr \<lparr>loaded_offered = dict_get d ''total_suggestions_offered'' (JInt 0),
                    loaded_accepted = dict_get d ''total_suggestions_accepted'' (JInt 0),
                    loaded_dismissed = dict_get d ''total_suggestions_dismissed'' (JInt 0),
                    loaded_last_assessment = dict_get d ''last_assessment'' JNull,
                    loaded_skill_history = dict_get d ''skill_history'' (JObj []),
                    loaded_fade_out_overrides = dict_get d ''fade_out_overrides'' (JObj [])\<rparr>
           | _ \<Rightarrow> Inl (AttributeError ''get'')))"

text \<open>
  The typed reading of a loaded state: defined when every field has the type its
  annotation in \<^verbatim>\<open>CoachingState\<close> declares, and each history entry the three keys the
  orchestrator writes. Python performs no such check; the operations below are modelled
  on typed states.
\<close>

definition int_of_json :: "json \<Rightarrow> int option" where
  "int_of_json j = (case j of JInt n \<Rightarrow> Some n | _ \<Rightarrow> None)"

definition optional_str_of_json :: "json \<Rightarrow> string option option" where
  "optional_str_of_json j =
     (case j of JNull \<Rightarrow> Some None | JStr x \<Rightarrow> Some (Some x) | _ \<Rightarrow> None)"

definition entry_of_json :: "json \<Rightarrow> history_entry option" where
  "entry_of_json j =
     (case j of
        JObj [(k1, JStr d), (k2, JFloat x), (k3, JStr tr)] \<Rightarrow>
          if k1 = ''date'' \<and> k2 = ''score'' \<and> k3 = ''trend''
          then Some \<lparr>date = d, entry_score = x, entry_trend = tr\<rparr> else None
      | _ \<Rightarrow> None)"

definition history_of_json :: "json \<Rightarrow> (string \<times> history_entry list) list option" where
  "history_of_json j =
     (case j of
        JObj kvs \<Rightarrow>
          those (map (\<lambda>kv. case snd kv of
                             JArr es \<Rightarrow> map_option (Pair (fst kv)) (those (map entry_of_json es))
                           | _ \<Rightarrow> None) kvs)
      | _ \<Rightarrow> None)"

definition overrides_of_json :: "json \<Rightarrow> (string \<times> bool) list option" where
  "overrides_of_json j =
     (case j of
        JObj kvs \<Rightarrow>
          those (map (\<lambda>kv. case snd kv of JBool b \<Rightarrow> Some (fst kv, b) | _ \<Rightarrow> None) kvs)
      | _ \<Rightarrow> None)"

definition CoachingState_of :: "loaded_state \<Rightarrow> CoachingState option" where
  "CoachingState_of l =
     (case (int_of_json (loaded_offered l), int_of_json (loaded_accepted l),
            int_of_json (loaded_dismissed l),
            optional_str_of_json (loaded_last_assessment l),
            history_of_json (loaded_skill_history l),
            overrides_of_json (loaded_fade_out_overrides l)) of
        (Some a, Some b, Some c, Some la, Some h, Some ov) \<Rightarrow>
          Some \<lparr>total_suggestions_offered = a, total_suggestions_accepted = b,
                total_suggestions_dismissed = c, last_assessment = la, skill_history = h,
                fade_out_overrides = ov\<rparr>
      | _ \<Rightarrow> None)"

text \<open>
  \<^verbatim>\<open>AdaptiveCoach.__init__\<close>: the tracker, the detector and the engine are built, then the
  state is loaded. The result is \<^const>\<open>None\<close> when the state was loaded with a field of
  another type than declared, where the typed model ends.
\<close>

definition AdaptiveCoach_init ::
  "tracker_files \<Rightarrow> json file_content \<Rightarrow> error + AdaptiveCoach option" where
  "AdaptiveCoach_init fs sf =
     (let t = BehaviorTracker_init fs;
          d = DifficultyDetector_init;
          se = SuggestionEngine_init t
      in case load_state sf of
           Inl e \<Rightarrow> Inl e
         | Inr l \<Rightarrow>
             Inr (map_option
                    (\<lambda>st. \<lparr>tracker = t, detector = d, suggester = se, state = st,
                           current_session = None, cached_report = None, cache_time = None,
                           state_file = sf\<rparr>)
                    (CoachingState_of l)))"

subsection \<open>The cached difficulty report\<close>

definition cache_duration :: int where
  "cache_duration = timedelta_minutes 5"

text \<open>The loop of \<^verbatim>\<open>_get_difficulty_report\<close> over \<^verbatim>\<open>skills.items()\<close>: one entry is appended
  per skill and the list is cut to its last 100 entries.\<close>

definition append_history ::
  "world \<Rightarrow> string \<times> SkillAssessment \<Rightarrow> (string \<times> history_entry list) list \<Rightarrow>
   (string \<times> history_entry list) list" where
  "append_history w na h =
     AList.update (fst na)
       (last_n 100
          ((case map_of h (fst na) of None \<Rightarrow> [] | Some es \<Rightarrow> es)
           @ [\<lparr>date = now_iso w, entry_score = score (snd na),
                entry_trend = trend (snd na)\<rparr>]))
       h"

definition cache_fresh :: "world \<Rightarrow> AdaptiveCoach \<Rightarrow> DifficultyReport option" where
  "cache_fresh w c =
     (case cached_report c of
        None \<Rightarrow> None
      | Some r \<Rightarrow>
          (case cache_time c of
             None \<Rightarrow> None
           | Some ct \<Rightarrow> if now w - ct < cache_duration then Some r else None))"

definition get_difficulty_report ::
  "world \<Rightarrow> AdaptiveCoach \<Rightarrow> (error + DifficultyReport) \<times> AdaptiveCoach" where
  "get_difficulty_report w c =
     (case cache_fresh w c of
        Some r \<Rightarrow> (Inr r, c)
      | None \<Rightarrow>
          (case assess_all_skills w (tracker c) (detector c) of
             (Inl e, d') \<Rightarrow> (Inl e, c\<lparr>detector := d'\<rparr>)
           | (Inr r, d') \<Rightarrow>
               (Inr r,
                save_state
                  (c\<lparr>detector := d', cached_report := Some r, cache_time := Some (now w),
                     state := (state c)\<lparr>skill_history :=
                                           fold (append_history w) (skills r)
                                             (skill_history (state c)),
                                         last_assessment := Some (now_iso w)\<rparr>\<rparr>))))"

subsection \<open>Suggestions with fade-out\<close>

definition count_offered :: "AdaptiveCoach \<Rightarrow> AdaptiveCoach" where
  "count_offered c =
     c\<lparr>current_session :=
          map_option (\<lambda>cs. cs\<lparr>suggestions_offered := suggestions_offered cs + 1\<rparr>)
            (current_session c),
        state := (state c)\<lparr>total_suggestions_offered :=
                              total_suggestions_offered (state c) + 1\<rparr>\<rparr>"

text \<open>\<^verbatim>\<open>_create_naming_result\<close>: the orchestrator's \<^verbatim>\<open>content\<close>, a string or \<^verbatim>\<open>None\<close>, is
  passed on as the engine's \<^verbatim>\<open>content_analysis\<close>.\<close>

definition create_naming_result ::
  "world \<Rightarrow> AdaptiveCoach \<Rightarrow> string \<Rightarrow> string option \<Rightarrow> string option \<Rightarrow> real \<Rightarrow> string \<Rightarrow>
   string \<Rightarrow> (error + SuggestionResult) \<times> AdaptiveCoach" where
  "create_naming_result w c filename cont fpath i level why =
     (case suggest_filename w (suggester c) filename
             (case cont of None \<Rightarrow> Content_none | Some x \<Rightarrow> Content_str x) None of
        Inl e \<Rightarrow> (Inl e, c)
      | Inr suggestion \<Rightarrow>
          (Inr \<lparr>suggestion_type = ''naming'', content = Some (Naming_content suggestion),
                intensity = i, reason = why, skill_level = level, should_show = True\<rparr>,
           count_offered c))"

definition create_folder_result ::
  "world \<Rightarrow> AdaptiveCoach \<Rightarrow> string \<Rightarrow> string list option \<Rightarrow> real \<Rightarrow> string \<Rightarrow> string \<Rightarrow>
   (error + SuggestionResult) \<times> AdaptiveCoach" where
  "create_folder_result w c fpath available_folders i level why =
     (case suggest_folder w (suggester c) fpath available_folders of
        Inl e \<Rightarrow> (Inl e, c)
      | Inr suggestion \<Rightarrow>
          (Inr \<lparr>suggestion_type = ''folder'', content = Some (Folder_content suggestion),
                intensity = i, reason = why, skill_level = level, should_show = True\<rparr>,
           count_offered c))"

definition override_disabled :: "AdaptiveCoach \<Rightarrow> string \<Rightarrow> bool" where
  "override_disabled c name =
     (case map_of (fade_out_overrides (state c)) name of None \<Rightarrow> False | Some b \<Rightarrow> b)"

definition get_naming_suggestion ::
  "world \<Rightarrow> AdaptiveCoach \<Rightarrow> string \<Rightarrow> string option \<Rightarrow> string option \<Rightarrow>
   (error + SuggestionResult) \<times> AdaptiveCoach" where
  "get_naming_suggestion w c0 filename cont fpath =
     (case get_difficulty_report w c0 of
        (Inl e, c) \<Rightarrow> (Inl e, c)
      | (Inr report, c) \<Rightarrow>
          (case map_of (skills report) ''naming_consistency'' of
             None \<Rightarrow>
               create_naming_result w c filename cont fpath INTENSITY_FULL ''new''
                 ''No naming history - providing full guidance''
           | Some naming_skill \<Rightarrow>
               (case calculate_intensity naming_skill of (i, level) \<Rightarrow>
                  if override_disabled c ''naming_consistency'' then
                    (Inr \<lparr>suggestion_type = ''none'', content = None, intensity = 0.0,
                          reason = ''User disabled naming suggestions'',
                          skill_level = level, should_show = False\<rparr>, c)
                  else if \<not> should_show_at_intensity w i then
                    (Inr \<lparr>suggestion_type = ''naming'', content = None, intensity = i,
                          reason = ''Faded out - skill level: '' @ level,
                          skill_level = level, should_show = False\<rparr>, c)
                  else
                    create_naming_result w c filename cont fpath i level
                      (''Skill: '' @ percent0 w (score naming_skill) @ '', Trend: ''
                       @ trend naming_skill))))"

definition get_folder_suggestion ::
  "world \<Rightarrow> AdaptiveCoach \<Rightarrow> string \<Rightarrow> string list option \<Rightarrow>
   (error + SuggestionResult) \<times> AdaptiveCoach" where
  "get_folder_suggestion w c0 fpath available_folders =
     (case get_difficulty_report w c0 of
        (Inl e, c) \<Rightarrow> (Inl e, c)
      | (Inr report, c) \<Rightarrow>
          (case map_of (skills report) ''folder_organization'' of
             None \<Rightarrow>
               create_folder_result w c fpath available_folders INTENSITY_FULL ''new''
                 ''No folder organization history''
           | Some folder_skill \<Rightarrow>
               (case calculate_intensity folder_skill of (i, level) \<Rightarrow>
                  if override_disabled c ''folder_organization'' then
                    (Inr \<lparr>suggestion_type = ''none'', content = None, intensity = 0.0,
                          reason = ''User disabled folder suggestions'',
                          skill_level = level, should_show = False\<rparr>, c)
                  else if \<not> should_show_at_intensity w i then
                    (Inr \<lparr>suggestion_type = ''folder'', content = None, intensity = i,
                          reason = ''Faded out - skill level: '' @ level,
                          skill_level = level, should_show = False\<rparr>, c)
                  else
                    create_folder_result w c fpath available_folders i level
                      (''Skill: '' @ percent0 w (score folder_skill) @ '', Trend: ''
                       @ trend folder_skill))))"

subsection \<open>Sessions, responses, status and user controls\<close>

definition start_session ::
  "world \<Rightarrow> AdaptiveCoach \<Rightarrow> (error + string) \<times> AdaptiveCoach" where
  "start_session w c0 =
     (case tracker_start_session w (tracker c0) of (sid, t) \<Rightarrow>
        (case get_difficulty_report w (c0\<lparr>tracker := t\<rparr>) of
           (Inl e, c) \<Rightarrow> (Inl e, c)
         | (Inr report, c) \<Rightarrow>
             (Inr sid,
              c\<lparr>current_session :=
                   Some \<lparr>coaching_session_id = sid, started_at = now_iso w,
                         skill_snapshot = map (\<lambda>na. (fst na, score (snd na))) (skills report),
                         suggestions_offered = 0, suggestions_accepted = 0,
                         suggestions_dismissed = 0\<rparr>\<rparr>)))"

text \<open>
  \<^verbatim>\<open>record_suggestion_response\<close>. The counters are updated and the state is saved; then the
  method \<^verbatim>\<open>record_organization_decision\<close> is looked up on the tracker. The statement that
  clears the cached report comes after that call.
\<close>

definition record_suggestion_response ::
  "world \<Rightarrow> AdaptiveCoach \<Rightarrow> string \<Rightarrow> bool \<Rightarrow> string \<Rightarrow> string \<Rightarrow> string \<Rightarrow>
   (error + unit) \<times> AdaptiveCoach" where
  "record_suggestion_response w c0 stype accepted original_value suggested final_value =
     (let c1 = c0\<lparr>current_session :=
                    map_option
                      (\<lambda>cs. if accepted
                            then cs\<lparr>suggestions_accepted := suggestions_accepted cs + 1\<rparr>
                            else cs\<lparr>suggestions_dismissed := suggestions_dismissed cs + 1\<rparr>)
                      (current_session c0)\<rparr>;
          st = state c1;
          c2 = c1\<lparr>state :=
                    (if accepted
                     then st\<lparr>total_suggestions_accepted := total_suggestions_accepted st + 1\<rparr>
                     else st\<lparr>total_suggestions_dismissed :=
                               total_suggestions_dismissed st + 1\<rparr>)\<rparr>;
          c3 = save_state c2
      in case tracker_getattr ''record_organization_decision'' of
           Inl e \<Rightarrow> (Inl e, c3)
         | Inr u \<Rightarrow> (Inr (), c3\<lparr>cached_report := None\<rparr>))"

record skill_status =
  status_score :: real
  level :: string
  status_trend :: string
  status_intensity :: real
  guidance_active :: bool
  samples :: nat
  status_confidence :: real

record suggestion_totals =
  offered :: int
  accepted :: int
  dismissed :: int
  acceptance_rate_total :: real

record coach_status =
  status_overall_skill :: real
  status_skills :: "(string \<times> skill_status) list"
  suggestions :: suggestion_totals
  status_recommendations :: "string list"
  status_struggles :: "pyval list"
  status_improvements :: "pyval list"
  status_regressions :: "pyval list"
  session_active :: bool

text \<open>
  \<^verbatim>\<open>get_status\<close>. The three lists are read with \<^verbatim>\<open>s['area']\<close> from the dictionaries the detector
  built, in the order struggles, improvements, regressions.
\<close>

definition get_status :: "world \<Rightarrow> AdaptiveCoach \<Rightarrow> (error + coach_status) \<times> AdaptiveCoach" where
  "get_status w c0 =
     (case get_difficulty_report w c0 of
        (Inl e, c) \<Rightarrow> (Inl e, c)
      | (Inr report, c) \<Rightarrow>
          (let skills_status =
                 map (\<lambda>na. case calculate_intensity (snd na) of (i, lv) \<Rightarrow>
                        (fst na,
                         \<lparr>status_score = score (snd na), level = lv,
                          status_trend = trend (snd na), status_intensity = i,
                          guidance_active = (i > INTENSITY_MINIMAL),
                          samples = samples_count (snd na),
                          status_confidence = confidence (snd na)\<rparr>))
                   (skills report);
               totals =
                 \<lparr>offered = total_suggestions_offered (state c),
                  accepted = total_suggestions_accepted (state c),
                  dismissed = total_suggestions_dismissed (state c),
                  acceptance_rate_total =
                    safe_divide (total_suggestions_accepted (state c))
                      (total_suggestions_offered (state c))\<rparr>
           in case collect (map (\<lambda>x. getitem x ''area'') (struggles report)) of
                Inl e \<Rightarrow> (Inl e, c)
              | Inr ss \<Rightarrow>
                  (case collect (map (\<lambda>x. getitem x ''area'') (improvements report)) of
                     Inl e \<Rightarrow> (Inl e, c)
                   | Inr is \<Rightarrow>
                       (case collect (map (\<lambda>x. getitem x ''area'') (regressions report)) of
                          Inl e \<Rightarrow> (Inl e, c)
                        | Inr rs \<Rightarrow>
                            (Inr \<lparr>status_overall_skill = overall_skill report,
                                  status_skills = skills_status,
                                  suggestions = totals,
                                  status_recommendations = recommendations report,
                                  status_struggles = ss,
                                  status_improvements = is,
                                  status_regressions = rs,
                                  session_active = (current_session c \<noteq> None)\<rparr>, c)))))"

record fade_entry =
  fade_level :: string
  fade_intensity :: real
  faded_out :: bool
  fade_override_disabled :: bool
  will_re_engage :: bool

definition get_fade_status ::
  "world \<Rightarrow> AdaptiveCoach \<Rightarrow> (error + (string \<times> fade_entry) list) \<times> AdaptiveCoach" where
  "get_fade_status w c0 =
     (case get_difficulty_report w c0 of
        (Inl e, c) \<Rightarrow> (Inl e, c)
      | (Inr report, c) \<Rightarrow>
          (Inr (map (\<lambda>na. case calculate_intensity (snd na) of (i, lv) \<Rightarrow>
                       (fst na,
                        \<lparr>fade_level = lv, fade_intensity = i,
                         faded_out = (i \<le> INTENSITY_MINIMAL),
                         fade_override_disabled = override_disabled c (fst na),
                         will_re_engage = (trend (snd na) = ''regressing'')\<rparr>))
                  (skills report)), c))"

definition set_fade_out_override :: "AdaptiveCoach \<Rightarrow> string \<Rightarrow> bool \<Rightarrow> AdaptiveCoach" where
  "set_fade_out_override c name disabled =
     save_state
       (c\<lparr>state := (state c)\<lparr>fade_out_overrides :=
                               AList.update name disabled (fade_out_overrides (state c))\<rparr>\<rparr>)"

definition reset_skill_tracking :: "AdaptiveCoach \<Rightarrow> string option \<Rightarrow> AdaptiveCoach" where
  "reset_skill_tracking c name =
     (save_state
        (c\<lparr>state := (state c)\<lparr>skill_history :=
                                (if truthy name
                                 then (case name of
                                         Some k \<Rightarrow> AList.update k [] (skill_history (state c))
                                       | None \<Rightarrow> [])
                                 else [])\<rparr>\<rparr>))
       \<lparr>cached_report := None\<rparr>"

definition force_re_engagement :: "AdaptiveCoach \<Rightarrow> string \<Rightarrow> AdaptiveCoach" where
  "force_re_engagement c name =
     (save_state
        (c\<lparr>state := (state c)\<lparr>fade_out_overrides :=
                                AList.delete name (fade_out_overrides (state c)),
                              skill_history :=
                                AList.update name [] (skill_history (state c))\<rparr>\<rparr>))
       \<lparr>cached_report := None\<rparr>"

section \<open>Predicates and inputs used in the statements\<close>

text \<open>The keys of the dictionary literal in \<^verbatim>\<open>assess_all_skills\<close>.\<close>

definition skill_names :: "string list" where
  "skill_names =
     [''search_ability'', ''naming_consistency'', ''folder_organization'',
      ''file_management'']"

text \<open>
  The only assignments to \<^verbatim>\<open>self._cached_report\<close> are \<^verbatim>\<open>None\<close> and the result of
  \<^verbatim>\<open>assess_all_skills()\<close>, so a cached report has the four skills. The predicate holds of
  a constructed orchestrator and every operation keeps it.
\<close>

definition cache_from_assessor :: "AdaptiveCoach \<Rightarrow> bool" where
  "cache_from_assessor c =
     (case cached_report c of None \<Rightarrow> True | Some r \<Rightarrow> map fst (skills r) = skill_names)"

text \<open>An assessment with a given score, trend and confidence.\<close>

definition assessment_of :: "real \<Rightarrow> string \<Rightarrow> real \<Rightarrow> SkillAssessment" where
  "assessment_of s tr cf =
     \<lparr>skill_name = ''naming_consistency'', score = s, confidence = cf, trend = tr,
      evidence = [], last_updated = [], samples_count = 20\<rparr>"

text \<open>A world with a given clock and random draw, and formatters that print nothing.\<close>

definition world_of :: "int \<Rightarrow> real \<Rightarrow> world" where
  "world_of clock draw =
     \<lparr>now = clock, now_iso = ''t'', random = draw, session_hash = ''0123456789ab'',
      today = ''20260101'', percent0 = (\<lambda>x. []), fixed1 = (\<lambda>x. []),
      path_parts = (\<lambda>p. [p]), path_parent = (\<lambda>p. []), path_stem = (\<lambda>p. p),
      path_suffix = (\<lambda>p. []), decimal = (\<lambda>n. [])\<rparr>"

text \<open>The data directory of a first run: no file exists.\<close>

definition no_files :: tracker_files where
  "no_files = \<lparr>events_file = Absent, sessions_file = Absent, stats_file = Absent\<rparr>"

text \<open>The orchestrator over an empty store, as the constructor builds it on a first run.\<close>

definition fresh_coach :: AdaptiveCoach where
  "fresh_coach =
     \<lparr>tracker = BehaviorTracker_init no_files, detector = DifficultyDetector_init,
      suggester = SuggestionEngine_init (BehaviorTracker_init no_files),
      state = CoachingState_default, current_session = None, cached_report = None,
      cache_time = None, state_file = Absent\<rparr>"

text \<open>
  A store that holds ten searches, none of them clicked or refined, all made at instant 0,
  and nothing else; and the data directory that holds it.
\<close>

definition unclicked_search :: SearchEvent where
  "unclicked_search =
     \<lparr>se_timestamp = 0, query = ''budget'', results_count = 3, clicked_result = None,
      time_to_click_ms = None, refined_query = None, se_session_id = ''0123456789ab''\<rparr>"

definition unclicked_files :: tracker_files where
  "unclicked_files =
     \<lparr>events_file = Parsed (default_events\<lparr>log_searches := replicate 10 unclicked_search\<rparr>),
      sessions_file = Absent, stats_file = Absent\<rparr>"

text \<open>
  The sample counts the four assessors compare with their minimum: the searches of the last
  30 days, the renames in the log that carry a new name (the list \<^verbatim>\<open>renames\<close> of
  \<^verbatim>\<open>get_naming_preferences\<close>), all navigation events, and the file accesses of the last 30
  days.
\<close>

definition search_samples :: "world \<Rightarrow> BehaviorTracker \<Rightarrow> nat" where
  "search_samples w t =
     length (filter (\<lambda>s. se_timestamp s > now w - timedelta_days 30) (log_searches (events t)))"

definition naming_samples :: "BehaviorTracker \<Rightarrow> nat" where
  "naming_samples t =
     length (filter (\<lambda>a. access_type a = ''rename'' \<and> truthy (new_name a))
               (log_file_accesses (events t)))"

definition navigation_samples :: "BehaviorTracker \<Rightarrow> nat" where
  "navigation_samples t = length (log_navigation (events t))"

definition access_samples :: "world \<Rightarrow> BehaviorTracker \<Rightarrow> nat" where
  "access_samples w t =
     length (filter (\<lambda>a. fa_timestamp a > now w - timedelta_days 30)
               (log_file_accesses (events t)))"

text \<open>The neutral assessment: score 0.5, confidence 0.1, trend \<^verbatim>\<open>'new'\<close>.\<close>

definition is_neutral :: "SkillAssessment \<Rightarrow> bool" where
  "is_neutral a = (score a = 0.5 \<and> confidence a = 0.1 \<and> trend a = ''new'')"

text \<open>
  The confidence of an assessment as the four assessors compute it from the sample count:
  0.1 below the minimum \<open>m\<close>, else \<^verbatim>\<open>min(n / D, 1.0)\<close>.
\<close>

definition confidence_curve :: "nat \<Rightarrow> real \<Rightarrow> nat \<Rightarrow> real" where
  "confidence_curve m D n = (if n < m then 0.1 else min (real n / D) 1.0)"

text \<open>A store with \<open>n\<close> unclicked searches, and a store with \<open>n\<close> renames to \<^verbatim>\<open>notes_a\<close>.\<close>

definition store_with_searches :: "nat \<Rightarrow> BehaviorTracker" where
  "store_with_searches n =
     (BehaviorTracker_init no_files)
       \<lparr>events := default_events\<lparr>log_searches := replicate n unclicked_search\<rparr>\<rparr>"

definition rename_event :: FileAccessEvent where
  "rename_event =
     \<lparr>fa_timestamp = 0, file_path = ''docs/a.md'', file_type = ''.md'',
      access_type = ''rename'', previous_name = Some ''a'', new_name = Some ''notes_a'',
      source_path = None, dest_path = None, fa_session_id = ''0123456789ab''\<rparr>"

definition store_with_renames :: "nat \<Rightarrow> BehaviorTracker" where
  "store_with_renames n =
     (BehaviorTracker_init no_files)
       \<lparr>events := default_events\<lparr>log_file_accesses := replicate n rename_event\<rparr>\<rparr>"

section \<open>Properties of the intensity calculation\<close>

lemmas coach_constants =
  INTENSITY_FULL_def INTENSITY_REGULAR_def INTENSITY_OCCASIONAL_def INTENSITY_MINIMAL_def
  INTENSITY_NONE_def SKILL_STRUGGLING_def SKILL_LEARNING_def SKILL_PROFICIENT_def

lemma base_band_antitone: "s \<le> s' \<Longrightarrow> fst (base_band s') \<le> fst (base_band s)"
  by (simp add: base_band_def coach_constants)

lemma base_band_range: "0 \<le> fst (base_band s) \<and> fst (base_band s) \<le> 1"
  by (simp add: base_band_def coach_constants)

lemma adjust_trend_mono:
  "fst p \<le> fst q \<Longrightarrow> fst (adjust_trend tr p) \<le> fst (adjust_trend tr q)"
  by (cases p; cases q) (auto simp add: adjust_trend_def coach_constants)

lemma adjust_trend_range:
  "0 \<le> fst p \<Longrightarrow> fst p \<le> 1 \<Longrightarrow> 0 \<le> fst (adjust_trend tr p) \<and> fst (adjust_trend tr p) \<le> 1"
  by (cases p) (auto simp add: adjust_trend_def coach_constants)

lemma calculate_intensity_fst:
  "fst (calculate_intensity a) =
     (let x = fst (adjust_trend (trend a) (base_band (score a)))
      in if confidence a < 0.5 then max x INTENSITY_REGULAR else x)"
  by (simp add: calculate_intensity_def split: prod.splits)

lemma calculate_intensity_snd:
  "snd (calculate_intensity a) = snd (adjust_trend (trend a) (base_band (score a)))"
  by (simp add: calculate_intensity_def split: prod.splits)

lemma calculate_intensity_range:
  "0 \<le> fst (calculate_intensity a) \<and> fst (calculate_intensity a) \<le> 1"
proof -
  have "0 \<le> fst (adjust_trend (trend a) (base_band (score a))) \<and>
        fst (adjust_trend (trend a) (base_band (score a))) \<le> 1"
    using base_band_range adjust_trend_range by blast
  then show ?thesis
    by (auto simp add: calculate_intensity_fst Let_def INTENSITY_REGULAR_def)
qed

lemma calculate_intensity_antitone:
  assumes "trend a = trend b" and "confidence a = confidence b" and "score a \<le> score b"
  shows "fst (calculate_intensity b) \<le> fst (calculate_intensity a)"
proof -
  have "fst (adjust_trend (trend b) (base_band (score b)))
          \<le> fst (adjust_trend (trend b) (base_band (score a)))"
    using assms(3) by (intro adjust_trend_mono base_band_antitone)
  with assms(1,2) show ?thesis
    by (auto simp add: calculate_intensity_fst Let_def)
qed

text \<open>
  Claim C6. Holding trend and confidence fixed, the intensity does not increase when the
  score increases; in particular, for scores taken one in each band (below 0.4, below 0.7,
  below 0.85, the rest) the intensities are ordered
  struggling \<open>\<ge>\<close> learning \<open>\<ge>\<close> proficient \<open>\<ge>\<close> mastered.
\<close>

theorem intensity_antitone_in_score:
  "(trend a = trend b \<and> confidence a = confidence b \<and> score a \<le> score b
      \<longrightarrow> fst (calculate_intensity b) \<le> fst (calculate_intensity a))
   \<and> (trend a1 = tr \<and> trend a2 = tr \<and> trend a3 = tr \<and> trend a4 = tr
      \<and> confidence a1 = cf \<and> confidence a2 = cf \<and> confidence a3 = cf \<and> confidence a4 = cf
      \<and> score a1 < SKILL_STRUGGLING
      \<and> SKILL_STRUGGLING \<le> score a2 \<and> score a2 < SKILL_LEARNING
      \<and> SKILL_LEARNING \<le> score a3 \<and> score a3 < SKILL_PROFICIENT
      \<and> SKILL_PROFICIENT \<le> score a4
      \<longrightarrow> fst (calculate_intensity a4) \<le> fst (calculate_intensity a3)
        \<and> fst (calculate_intensity a3) \<le> fst (calculate_intensity a2)
        \<and> fst (calculate_intensity a2) \<le> fst (calculate_intensity a1))"
proof (intro conjI impI)
  assume "trend a = trend b \<and> confidence a = confidence b \<and> score a \<le> score b"
  then show "fst (calculate_intensity b) \<le> fst (calculate_intensity a)"
    by (simp add: calculate_intensity_antitone)
next
  assume h: "trend a1 = tr \<and> trend a2 = tr \<and> trend a3 = tr \<and> trend a4 = tr
      \<and> confidence a1 = cf \<and> confidence a2 = cf \<and> confidence a3 = cf \<and> confidence a4 = cf
      \<and> score a1 < SKILL_STRUGGLING
      \<and> SKILL_STRUGGLING \<le> score a2 \<and> score a2 < SKILL_LEARNING
      \<and> SKILL_LEARNING \<le> score a3 \<and> score a3 < SKILL_PROFICIENT
      \<and> SKILL_PROFICIENT \<le> score a4"
  then have "score a3 \<le> score a4" "score a2 \<le> score a3" "score a1 \<le> score a2"
    by simp_all
  with h show "fst (calculate_intensity a4) \<le> fst (calculate_intensity a3)"
    and "fst (calculate_intensity a3) \<le> fst (calculate_intensity a2)"
    and "fst (calculate_intensity a2) \<le> fst (calculate_intensity a1)"
    by (simp_all add: calculate_intensity_antitone)
qed

theorem intensity_antitone_in_score_witness:
  "fst (calculate_intensity (assessment_of 0.9 ''stable'' 0.9))
     \<le> fst (calculate_intensity (assessment_of 0.2 ''stable'' 0.9))
   \<and> fst (calculate_intensity (assessment_of 0.9 ''stable'' 0.9))
     \<le> fst (calculate_intensity (assessment_of 0.8 ''stable'' 0.9))
   \<and> fst (calculate_intensity (assessment_of 0.8 ''stable'' 0.9))
     \<le> fst (calculate_intensity (assessment_of 0.5 ''stable'' 0.9))
   \<and> fst (calculate_intensity (assessment_of 0.5 ''stable'' 0.9))
     \<le> fst (calculate_intensity (assessment_of 0.2 ''stable'' 0.9))"
  using intensity_antitone_in_score
    [where a = "assessment_of 0.2 ''stable'' 0.9" and b = "assessment_of 0.9 ''stable'' 0.9"
       and ?a1.0 = "assessment_of 0.2 ''stable'' 0.9"
       and ?a2.0 = "assessment_of 0.5 ''stable'' 0.9"
       and ?a3.0 = "assessment_of 0.8 ''stable'' 0.9"
       and ?a4.0 = "assessment_of 0.9 ''stable'' 0.9"
       and tr = "''stable''" and cf = "0.9"]
  by (simp add: assessment_of_def SKILL_STRUGGLING_def SKILL_LEARNING_def SKILL_PROFICIENT_def)

text \<open>
  Claim C7. For every score and confidence, the intensity computed with trend
  \<^verbatim>\<open>'regressing'\<close> is at least the intensity computed with trend \<^verbatim>\<open>'stable'\<close>, and a regressing
  assessment is never given the level \<^verbatim>\<open>'mastered'\<close>.
\<close>

theorem regression_boost:
  "fst (calculate_intensity (a\<lparr>trend := ''stable''\<rparr>))
     \<le> fst (calculate_intensity (a\<lparr>trend := ''regressing''\<rparr>))
   \<and> snd (calculate_intensity (a\<lparr>trend := ''regressing''\<rparr>)) \<noteq> ''mastered''"
  by (auto simp add: calculate_intensity_fst calculate_intensity_snd Let_def adjust_trend_def
      base_band_def coach_constants)

section \<open>Properties of the assessor and of the report cache\<close>

lemma collect_ok:
  "(\<And>x. x \<in> set xs \<Longrightarrow> \<exists>v. f x = Inr v) \<Longrightarrow> \<exists>vs. collect (map f xs) = Inr vs"
proof (induction xs)
  case Nil
  then show ?case by simp
next
  case (Cons x xs)
  then obtain v where v: "f x = Inr v" by auto
  from Cons obtain vs where "collect (map f xs) = Inr vs" by auto
  with v show ?case by simp
qed

lemma struggle_has_skill:
  "s \<in> set (identify_struggles sk) \<Longrightarrow> \<exists>v. getitem s ''skill'' = Inr v"
  by (auto simp add: identify_struggles_def getitem_def)

lemma generate_recommendations_ok:
  "\<exists>recs. generate_recommendations sk (identify_struggles sk) = Inr recs"
proof -
  have "\<exists>vs. collect (map (\<lambda>s. getitem s ''skill'') (take 2 (identify_struggles sk))) = Inr vs"
    by (rule collect_ok) (meson in_set_takeD struggle_has_skill)
  then show ?thesis
    by (auto simp add: generate_recommendations_def)
qed

lemma assess_all_skills_ok:
  "\<exists>r d'. assess_all_skills w t d = (Inr r, d') \<and> map fst (skills r) = skill_names
      \<and> struggles r = identify_struggles (skills r)
      \<and> improvements r = identify_improvements (skills r)
      \<and> regressions r = identify_regressions (skills r)"
proof -
  obtain a1 d1 where 1: "assess_search_ability w t d = (a1, d1)" by fastforce
  obtain a2 d2 where 2: "assess_naming_consistency w t d1 = (a2, d2)" by fastforce
  obtain a3 d3 where 3: "assess_folder_organization w t d2 = (a3, d3)" by fastforce
  obtain a4 d4 where 4: "assess_file_management w t d3 = (a4, d4)" by fastforce
  let ?sk = "[(''search_ability'', a1), (''naming_consistency'', a2),
                   (''folder_organization'', a3), (''file_management'', a4)]"
  obtain recs where r: "generate_recommendations ?sk (identify_struggles ?sk) = Inr recs"
    using generate_recommendations_ok by blast
  show ?thesis
    by (simp add: assess_all_skills_def 1 2 3 4 Let_def r skill_names_def)
qed

lemma cache_fresh_Some: "cache_fresh w c = Some r \<Longrightarrow> cached_report c = Some r"
  by (auto simp add: cache_fresh_def split: option.splits if_splits)

lemma get_difficulty_report_ok:
  assumes "cache_from_assessor c0"
  shows "\<exists>r c. get_difficulty_report w c0 = (Inr r, c) \<and> map fst (skills r) = skill_names
           \<and> fade_out_overrides (state c) = fade_out_overrides (state c0)"
proof (cases "cache_fresh w c0")
  case (Some r)
  then have "cached_report c0 = Some r" by (rule cache_fresh_Some)
  with assms have "map fst (skills r) = skill_names"
    by (simp add: cache_from_assessor_def)
  with Some show ?thesis by (simp add: get_difficulty_report_def)
next
  case None
  obtain r d' where "assess_all_skills w (tracker c0) (detector c0) = (Inr r, d')"
    and "map fst (skills r) = skill_names"
    using assess_all_skills_ok by blast
  with None show ?thesis by (simp add: get_difficulty_report_def save_state_def)
qed

lemma skill_present:
  "map fst sk = skill_names \<Longrightarrow> k \<in> set skill_names \<Longrightarrow> \<exists>a. map_of sk k = Some a"
  by (metis list.set_map map_of_eq_None_iff not_Some_eq)

text \<open>
  The predicate \<^const>\<open>cache_from_assessor\<close> is an invariant: it holds of every constructed
  orchestrator and every operation keeps it.
\<close>

lemma cache_from_assessor_init:
  "AdaptiveCoach_init fs sf = Inr (Some c) \<Longrightarrow> cache_from_assessor c"
  by (auto simp add: AdaptiveCoach_init_def Let_def cache_from_assessor_def
      split: sum.splits)

lemma cache_from_assessor_report:
  assumes "cache_from_assessor c0"
  shows "cache_from_assessor (snd (get_difficulty_report w c0))"
proof (cases "cache_fresh w c0")
  case (Some r)
  with assms show ?thesis by (simp add: get_difficulty_report_def)
next
  case None
  obtain r d' where "assess_all_skills w (tracker c0) (detector c0) = (Inr r, d')"
    and "map fst (skills r) = skill_names"
    using assess_all_skills_ok by blast
  with None show ?thesis
    by (simp add: get_difficulty_report_def save_state_def cache_from_assessor_def)
qed

lemma create_naming_result_cache:
  "cached_report (snd (create_naming_result w c fn ct fp i lv why)) = cached_report c"
  by (simp add: create_naming_result_def count_offered_def split: sum.splits)

lemma create_folder_result_cache:
  "cached_report (snd (create_folder_result w c fp fl i lv why)) = cached_report c"
  by (simp add: create_folder_result_def count_offered_def split: sum.splits)

lemma cache_from_assessor_naming:
  assumes "cache_from_assessor c0"
  shows "cache_from_assessor (snd (get_naming_suggestion w c0 fn ct fp))"
proof -
  obtain res c where g: "get_difficulty_report w c0 = (res, c)" by fastforce
  with assms have c: "cache_from_assessor c"
    using cache_from_assessor_report [of c0 w] by simp
  have "cached_report (snd (get_naming_suggestion w c0 fn ct fp)) = cached_report c"
    by (simp add: get_naming_suggestion_def g create_naming_result_cache
        split: sum.splits option.splits prod.splits)
  with c show ?thesis by (simp add: cache_from_assessor_def)
qed

lemma cache_from_assessor_folder:
  assumes "cache_from_assessor c0"
  shows "cache_from_assessor (snd (get_folder_suggestion w c0 fp fl))"
proof -
  obtain res c where g: "get_difficulty_report w c0 = (res, c)" by fastforce
  with assms have c: "cache_from_assessor c"
    using cache_from_assessor_report [of c0 w] by simp
  have "cached_report (snd (get_folder_suggestion w c0 fp fl)) = cached_report c"
    by (simp add: get_folder_suggestion_def g create_folder_result_cache
        split: sum.splits option.splits prod.splits)
  with c show ?thesis by (simp add: cache_from_assessor_def)
qed

lemma cache_from_assessor_status:
  assumes "cache_from_assessor c0"
  shows "cache_from_assessor (snd (get_status w c0))"
proof -
  obtain res c where g: "get_difficulty_report w c0 = (res, c)" by fastforce
  with assms have c: "cache_from_assessor c"
    using cache_from_assessor_report [of c0 w] by simp
  have "snd (get_status w c0) = c"
    by (simp add: get_status_def g Let_def split: sum.splits)
  with c show ?thesis by simp
qed

lemma cache_from_assessor_session:
  assumes "cache_from_assessor c0"
  shows "cache_from_assessor (snd (start_session w c0))"
proof -
  obtain sid t where t: "tracker_start_session w (tracker c0) = (sid, t)" by fastforce
  from assms have "cache_from_assessor (c0\<lparr>tracker := t\<rparr>)"
    by (simp add: cache_from_assessor_def)
  then have "cache_from_assessor (snd (get_difficulty_report w (c0\<lparr>tracker := t\<rparr>)))"
    by (rule cache_from_assessor_report)
  then show ?thesis
    by (auto simp add: start_session_def t cache_from_assessor_def
        split: prod.splits sum.splits)
qed

lemma cache_from_assessor_controls:
  assumes "cache_from_assessor c"
  shows "cache_from_assessor (snd (record_suggestion_response w c ty acc orig sugg fin))"
    and "cache_from_assessor (set_fade_out_override c name b)"
    and "cache_from_assessor (reset_skill_tracking c nm)"
    and "cache_from_assessor (force_re_engagement c name)"
  using assms
  by (simp_all add: record_suggestion_response_def set_fade_out_override_def
      reset_skill_tracking_def force_re_engagement_def save_state_def
      cache_from_assessor_def Let_def split: sum.splits)

text \<open>
  Claim C1. For every skill assessment the intensity that \<^verbatim>\<open>_calculate_intensity\<close> computes
  lies in the interval from 0 to 1. For every orchestrator whose cached report (if any) came
  from the assessor, every clock and random draw, and every argument: when the override
  entry of \<^verbatim>\<open>naming_consistency\<close> is true, \<^verbatim>\<open>get_naming_suggestion\<close> returns, without raising,
  a result with intensity 0, suggestion type \<^verbatim>\<open>'none'\<close> and \<^verbatim>\<open>should_show\<close> false; the same holds
  of \<^verbatim>\<open>get_folder_suggestion\<close> and the entry of \<^verbatim>\<open>folder_organization\<close>. The score, trend and
  confidence of the skill are arbitrary.
\<close>

theorem intensity_range_and_override:
  "(0 \<le> fst (calculate_intensity a) \<and> fst (calculate_intensity a) \<le> 1)
   \<and> (cache_from_assessor c \<and> override_disabled c ''naming_consistency''
        \<longrightarrow> (\<exists>r c'. get_naming_suggestion w c filename cont fpath = (Inr r, c')
               \<and> intensity r = 0 \<and> suggestion_type r = ''none'' \<and> \<not> should_show r))
   \<and> (cache_from_assessor c \<and> override_disabled c ''folder_organization''
        \<longrightarrow> (\<exists>r c'. get_folder_suggestion w c fpath' folders = (Inr r, c')
               \<and> intensity r = 0 \<and> suggestion_type r = ''none'' \<and> \<not> should_show r))"
proof (intro conjI impI)
  show "0 \<le> fst (calculate_intensity a)" "fst (calculate_intensity a) \<le> 1"
    using calculate_intensity_range by blast+
next
  assume h: "cache_from_assessor c \<and> override_disabled c ''naming_consistency''"
  then obtain rep c1 where g: "get_difficulty_report w c = (Inr rep, c1)"
    and k: "map fst (skills rep) = skill_names"
    and o: "fade_out_overrides (state c1) = fade_out_overrides (state c)"
    using get_difficulty_report_ok by blast
  obtain sk where s: "map_of (skills rep) ''naming_consistency'' = Some sk"
    using skill_present [OF k] by (auto simp add: skill_names_def)
  from h o have d: "override_disabled c1 ''naming_consistency''"
    by (simp add: override_disabled_def)
  show "\<exists>r c'. get_naming_suggestion w c filename cont fpath = (Inr r, c')
               \<and> intensity r = 0 \<and> suggestion_type r = ''none'' \<and> \<not> should_show r"
    by (simp add: get_naming_suggestion_def g s d split: prod.splits)
next
  assume h: "cache_from_assessor c \<and> override_disabled c ''folder_organization''"
  then obtain rep c1 where g: "get_difficulty_report w c = (Inr rep, c1)"
    and k: "map fst (skills rep) = skill_names"
    and o: "fade_out_overrides (state c1) = fade_out_overrides (state c)"
    using get_difficulty_report_ok by blast
  obtain sk where s: "map_of (skills rep) ''folder_organization'' = Some sk"
    using skill_present [OF k] by (auto simp add: skill_names_def)
  from h o have d: "override_disabled c1 ''folder_organization''"
    by (simp add: override_disabled_def)
  show "\<exists>r c'. get_folder_suggestion w c fpath' folders = (Inr r, c')
               \<and> intensity r = 0 \<and> suggestion_type r = ''none'' \<and> \<not> should_show r"
    by (simp add: get_folder_suggestion_def g s d split: prod.splits)
qed

theorem intensity_range_and_override_witness:
  "(\<exists>r c'. get_naming_suggestion (world_of 0 0)
             (set_fade_out_override
               (set_fade_out_override fresh_coach ''naming_consistency'' True)
               ''folder_organization'' True)
             ''notes.md'' None None = (Inr r, c')
          \<and> intensity r = 0 \<and> suggestion_type r = ''none'' \<and> \<not> should_show r)
   \<and> (\<exists>r c'. get_folder_suggestion (world_of 0 0)
             (set_fade_out_override
               (set_fade_out_override fresh_coach ''naming_consistency'' True)
               ''folder_organization'' True)
             ''notes.md'' None = (Inr r, c')
          \<and> intensity r = 0 \<and> suggestion_type r = ''none'' \<and> \<not> should_show r)"
  using intensity_range_and_override
    [where c = "set_fade_out_override
               (set_fade_out_override fresh_coach ''naming_consistency'' True)
               ''folder_organization'' True" and w = "world_of 0 0" and filename = "''notes.md''"
       and cont = None and fpath = None and fpath' = "''notes.md''" and folders = None]
  by (simp add: cache_from_assessor_def override_disabled_def set_fade_out_override_def
      save_state_def fresh_coach_def CoachingState_default_def)

section \<open>Persistence of the coaching state\<close>

lemma entry_round_trip: "entry_of_json (entry_json e) = Some e"
  by (simp add: entry_of_json_def entry_json_def)

lemma entries_round_trip: "those (map entry_of_json (map entry_json es)) = Some es"
  by (induction es) (simp_all add: entry_round_trip del: map_map)

lemma history_round_trip:
  "history_of_json (JObj (map (\<lambda>kv. (fst kv, JArr (map entry_json (snd kv)))) h)) = Some h"
proof -
  have "those (map (\<lambda>kv. case snd kv of
                             JArr es \<Rightarrow> map_option (Pair (fst kv)) (those (map entry_of_json es))
                           | _ \<Rightarrow> None)
                 (map (\<lambda>kv. (fst kv, JArr (map entry_json (snd kv)))) h)) = Some h"
    by (induction h) (simp_all add: entries_round_trip del: map_map)
  then show ?thesis by (simp add: history_of_json_def)
qed

lemma overrides_round_trip:
  "overrides_of_json (JObj (map (\<lambda>kv. (fst kv, JBool (snd kv))) ov)) = Some ov"
proof -
  have "those (map (\<lambda>kv. case snd kv of JBool b \<Rightarrow> Some (fst kv, b) | _ \<Rightarrow> None)
                 (map (\<lambda>kv. (fst kv, JBool (snd kv))) ov)) = Some ov"
    by (induction ov) (simp_all del: map_map)
  then show ?thesis by (simp add: overrides_of_json_def)
qed

lemma load_saved_state:
  "\<exists>l. load_state (Parsed (state_document st)) = Inr l \<and> CoachingState_of l = Some st"
  by (cases "last_assessment st")
     (simp_all add: load_state_def state_document_def dict_get_def CoachingState_of_def
        int_of_json_def optional_str_of_json_def history_round_trip overrides_round_trip)

text \<open>
  Claim C9. For every orchestrator (any counters, any override map, any skill history),
  saving its state and constructing a fresh orchestrator on the saved file succeeds, and the
  fresh instance has the same three suggestion counters, the same override map and the same
  skill history; its whole state is the saved one. The files of the tracker are arbitrary.
\<close>

theorem state_round_trip:
  "\<exists>c'. AdaptiveCoach_init fs (state_file (save_state c)) = Inr (Some c')
       \<and> total_suggestions_offered (state c') = total_suggestions_offered (state c)
       \<and> total_suggestions_accepted (state c') = total_suggestions_accepted (state c)
       \<and> total_suggestions_dismissed (state c') = total_suggestions_dismissed (state c)
       \<and> fade_out_overrides (state c') = fade_out_overrides (state c)
       \<and> skill_history (state c') = skill_history (state c)
       \<and> state c' = state c"
proof -
  obtain l where "load_state (Parsed (state_document (state c))) = Inr l"
    and "CoachingState_of l = Some (state c)"
    using load_saved_state by blast
  then show ?thesis
    by (simp add: AdaptiveCoach_init_def save_state_def Let_def)
qed

text \<open>
  Claim C10, evaluated on the code. The claim is that construction never raises and gives
  the defaults for every content of the persisted files. With \<^verbatim>\<open>coaching_state.json\<close> holding
  the JSON text \<^verbatim>\<open>[]\<close>, the constructor raises \<^verbatim>\<open>AttributeError\<close>; with an unreadable file it
  raises \<^verbatim>\<open>OSError\<close>. Text that is not JSON and a missing file give the default state, as the
  claim says. The tracker's \<^const>\<open>load_json\<close> returns well-formed JSON as parsed, whatever
  its shape, and its default when the file is missing, unreadable or not JSON.
\<close>

theorem load_corruption_raises:
  "AdaptiveCoach_init no_files (Parsed (JArr [])) = Inl (AttributeError ''get'')
   \<and> AdaptiveCoach_init no_files Unreadable = Inl OSError
   \<and> AdaptiveCoach_init no_files Not_json = Inr (Some (fresh_coach\<lparr>state_file := Not_json\<rparr>))
   \<and> AdaptiveCoach_init no_files Absent = Inr (Some fresh_coach)
   \<and> load_json (Parsed (JArr [])) (JObj []) = JArr []
   \<and> events (BehaviorTracker_init
         \<lparr>events_file = Unreadable, sessions_file = Not_json, stats_file = Absent\<rparr>)
       = default_events
   \<and> sessions (BehaviorTracker_init
         \<lparr>events_file = Unreadable, sessions_file = Not_json, stats_file = Absent\<rparr>)
       = []
   \<and> stats (BehaviorTracker_init
         \<lparr>events_file = Unreadable, sessions_file = Not_json, stats_file = Absent\<rparr>)
       = default_stats"
  by (simp add: AdaptiveCoach_init_def fresh_coach_def load_state_def loaded_default_def
     CoachingState_of_def int_of_json_def optional_str_of_json_def history_of_json_def
     overrides_of_json_def CoachingState_default_def Let_def BehaviorTracker_init_def
     load_json_def)

text \<open>
  Claim C2, evaluated on the code. The claim is that \<^verbatim>\<open>record_suggestion_response\<close> completes,
  appends a decision event and clears the cached report. For every orchestrator and every
  argument the call raises \<^verbatim>\<open>AttributeError\<close>: the counter is incremented and the state is
  saved, and then the event log and the cached report are left as they were.
\<close>

theorem record_suggestion_response_raises:
  "\<exists>c'. record_suggestion_response w c stype acc original suggested final
          = (Inl (AttributeError ''record_organization_decision''), c')
       \<and> total_suggestions_accepted (state c')
           = total_suggestions_accepted (state c) + (if acc then 1 else 0)
       \<and> total_suggestions_dismissed (state c')
           = total_suggestions_dismissed (state c) + (if acc then 0 else 1)
       \<and> state_file c' = Parsed (state_document (state c'))
       \<and> events (tracker c') = events (tracker c)
       \<and> cached_report c' = cached_report c"
  by (simp add: record_suggestion_response_def tracker_getattr_def
      BehaviorTracker_attributes_def save_state_def Let_def)

section \<open>The orchestrator over an empty store\<close>

lemmas tracker_init_simps =
  BehaviorTracker_init_def no_files_def load_json_def default_events_def default_stats_def

lemma empty_search: "assess_search_ability w (BehaviorTracker_init no_files) d =
  (\<lparr>skill_name = ''search_ability'', score = 0.5, confidence = 0.1, trend = ''new'',
             evidence = [''Not enough search data''], last_updated = now_iso w,
             samples_count = 0\<rparr>, d)"
  by (simp add: assess_search_ability_def get_search_patterns_def tracker_init_simps Let_def
     last_n_def calculate_success_rate_def List.map_filter_simps)

lemma empty_naming: "assess_naming_consistency w (BehaviorTracker_init no_files) d =
  (\<lparr>skill_name = ''naming_consistency'', score = 0.5, confidence = 0.1, trend = ''new'',
             evidence = [''Not enough naming data''], last_updated = now_iso w,
             samples_count = 0\<rparr>, d)"
  by (simp add: assess_naming_consistency_def get_naming_preferences_def rename_names_def
     sample_size_def tracker_init_simps Let_def List.map_filter_simps)

lemma empty_folder: "assess_folder_organization w (BehaviorTracker_init no_files) d =
  (\<lparr>skill_name = ''folder_organization'', score = 0.5, confidence = 0.1, trend = ''new'',
             evidence = [''Not enough navigation data''], last_updated = now_iso w,
             samples_count = 0\<rparr>, d)"
  by (simp add: assess_folder_organization_def tracker_init_simps Let_def)

lemma empty_files: "assess_file_management w (BehaviorTracker_init no_files) d =
  (\<lparr>skill_name = ''file_management'', score = 0.5, confidence = 0.1, trend = ''new'',
             evidence = [''Not enough file access data''], last_updated = now_iso w,
             samples_count = 0\<rparr>, d)"
  by (simp add: assess_file_management_def get_file_patterns_def tracker_init_simps Let_def
      last_n_def)

lemma empty_report:
  "\<exists>r a. assess_all_skills w (BehaviorTracker_init no_files) d = (Inr r, d)
     \<and> map_of (skills r) ''naming_consistency'' = Some a
     \<and> calculate_intensity a = (0.7, ''learning'')"
  by (simp add: assess_all_skills_def empty_search empty_naming empty_folder empty_files
      Let_def identify_struggles_def identify_improvements_def identify_regressions_def
      generate_recommendations_def THRESHOLD_STRUGGLING_def
      calculate_intensity_def adjust_trend_def base_band_def coach_constants)

text \<open>
  Claim C3, evaluated on the code. The claim is that on an empty store
  \<^verbatim>\<open>get_naming_suggestion("notes.md", "Meeting notes about budget")\<close> returns a shown result
  with level \<^verbatim>\<open>'new'\<close> and intensity 1.0. The constructor on a first run gives
  \<^const>\<open>fresh_coach\<close>. The assessor gives every skill the neutral assessment, not \<^verbatim>\<open>None\<close>, so
  the branch for a missing assessment is not taken: the level is \<^verbatim>\<open>'learning'\<close> and the
  intensity 0.7. With a random draw below 0.7 the content string reaches
  \<^verbatim>\<open>suggest_filename\<close>, which calls \<^verbatim>\<open>.get\<close> on it, and the call raises \<^verbatim>\<open>AttributeError\<close>;
  otherwise the result is not shown.
\<close>

theorem naming_suggestion_on_empty_store:
  "AdaptiveCoach_init no_files Absent = Inr (Some fresh_coach)
   \<and> fst (get_naming_suggestion w fresh_coach ''notes.md''
            (Some ''Meeting notes about budget'') None)
     = (if random w < 0.7 then Inl (AttributeError ''get'')
        else Inr \<lparr>suggestion_type = ''naming'', content = None, intensity = 0.7,
                  reason = ''Faded out - skill level: learning'',
                  skill_level = ''learning'', should_show = False\<rparr>)"
proof
  show "AdaptiveCoach_init no_files Absent = Inr (Some fresh_coach)"
    by (simp add: AdaptiveCoach_init_def fresh_coach_def load_state_def loaded_default_def
     CoachingState_of_def int_of_json_def optional_str_of_json_def history_of_json_def
     overrides_of_json_def CoachingState_default_def Let_def)
next
  obtain r a where r: "assess_all_skills w (BehaviorTracker_init no_files)
      DifficultyDetector_init = (Inr r, DifficultyDetector_init)"
    and n: "map_of (skills r) ''naming_consistency'' = Some a"
    and i: "calculate_intensity a = (0.7, ''learning'')"
    using empty_report by blast
  have "\<exists>c. get_difficulty_report w fresh_coach = (Inr r, c)
             \<and> fade_out_overrides (state c) = []"
    by (simp add: get_difficulty_report_def cache_fresh_def fresh_coach_def r save_state_def
        CoachingState_default_def)
  then obtain c where c: "get_difficulty_report w fresh_coach = (Inr r, c)"
    and o: "fade_out_overrides (state c) = []"
    by blast
  show "fst (get_naming_suggestion w fresh_coach ''notes.md''
            (Some ''Meeting notes about budget'') None)
     = (if random w < 0.7 then Inl (AttributeError ''get'')
        else Inr \<lparr>suggestion_type = ''naming'', content = None, intensity = 0.7,
                  reason = ''Faded out - skill level: learning'',
                  skill_level = ''learning'', should_show = False\<rparr>)"
    by (simp add: get_naming_suggestion_def c n i override_disabled_def o
        should_show_at_intensity_def create_naming_result_def suggest_filename_def
        content_truthy_def Let_def)
qed

section \<open>The status of an orchestrator whose user struggles\<close>

lemma get_status_struggle:
  assumes "get_difficulty_report w c0 = (Inr r, c)"
    and "struggles r = s # ss" and "map_of s ''area'' = None"
  shows "fst (get_status w c0) = Inl (KeyError ''area'')"
  using assms by (simp add: get_status_def Let_def getitem_def)

text \<open>
  When the first call returns, a second call while the cached report is still fresh returns
  the same status and leaves the orchestrator as it is.
\<close>

lemma get_difficulty_report_caches:
  "get_difficulty_report w c0 = (Inr r, c) \<Longrightarrow> cached_report c = Some r"
  by (auto simp add: get_difficulty_report_def save_state_def
      split: option.splits prod.splits sum.splits dest: cache_fresh_Some)

lemma get_status_report:
  "get_status w c0 = (Inr s, c) \<Longrightarrow> \<exists>r. get_difficulty_report w c0 = (Inr r, c)"
  by (auto simp add: get_status_def Let_def split: prod.splits sum.splits)

lemma get_status_of_report:
  "get_difficulty_report w c0 = (Inr r, c) \<Longrightarrow> get_difficulty_report w' c0' = (Inr r, c)
     \<Longrightarrow> get_status w c0 = get_status w' c0'"
  by (simp add: get_status_def)

lemma get_status_repeatable:
  assumes "get_status w1 c0 = (Inr s, c1)" and "cache_fresh w2 c1 \<noteq> None"
  shows "get_status w2 c1 = (Inr s, c1)"
proof -
  from assms(1) obtain r where r: "get_difficulty_report w1 c0 = (Inr r, c1)"
    using get_status_report by blast
  then have "cached_report c1 = Some r" by (rule get_difficulty_report_caches)
  with assms(2) have "cache_fresh w2 c1 = Some r"
    by (auto simp add: cache_fresh_def split: option.splits if_splits)
  then have "get_difficulty_report w2 c1 = (Inr r, c1)"
    by (simp add: get_difficulty_report_def)
  with r have "get_status w2 c1 = get_status w1 c0"
    using get_status_of_report [of w2 c1 r c1 w1 c0] by simp
  with assms(1) show ?thesis by simp
qed

lemmas unclicked_simps =
  BehaviorTracker_init_def unclicked_files_def load_json_def default_events_def
  default_stats_def

lemma unclicked_search_assessment: "\<exists>d'. assess_search_ability (world_of 0 x)
     (BehaviorTracker_init unclicked_files) DifficultyDetector_init =
  (\<lparr>skill_name = ''search_ability'', score = 0.25, confidence = 0.5, trend = ''new'',
             evidence = [''Search success rate: '', ''Search refinement rate: '',
                ''Abandoned searches: ''], last_updated = ''t'',
             samples_count = 10\<rparr>, d')"
  by (simp add: assess_search_ability_def get_search_patterns_def unclicked_simps Let_def
     last_n_def calculate_success_rate_def List.map_filter_def calculate_trend_def
     unclicked_search_def world_of_def timedelta_days_def truthy_def
     DifficultyDetector_init_def)

lemma unclicked_naming: "assess_naming_consistency w (BehaviorTracker_init unclicked_files) d =
  (\<lparr>skill_name = ''naming_consistency'', score = 0.5, confidence = 0.1, trend = ''new'',
             evidence = [''Not enough naming data''], last_updated = now_iso w,
             samples_count = 0\<rparr>, d)"
  by (simp add: assess_naming_consistency_def get_naming_preferences_def rename_names_def
     sample_size_def unclicked_simps Let_def List.map_filter_simps)

lemma unclicked_folder: "assess_folder_organization w (BehaviorTracker_init unclicked_files) d =
  (\<lparr>skill_name = ''folder_organization'', score = 0.5, confidence = 0.1, trend = ''new'',
             evidence = [''Not enough navigation data''], last_updated = now_iso w,
             samples_count = 0\<rparr>, d)"
  by (simp add: assess_folder_organization_def unclicked_simps Let_def)

lemma unclicked_management: "assess_file_management w (BehaviorTracker_init unclicked_files) d =
  (\<lparr>skill_name = ''file_management'', score = 0.5, confidence = 0.1, trend = ''new'',
             evidence = [''Not enough file access data''], last_updated = now_iso w,
             samples_count = 0\<rparr>, d)"
  by (simp add: assess_file_management_def get_file_patterns_def unclicked_simps Let_def
      last_n_def)

lemma unclicked_report:
  "\<exists>r d' s ss. assess_all_skills (world_of 0 x) (BehaviorTracker_init unclicked_files)
       DifficultyDetector_init = (Inr r, d')
     \<and> struggles r = s # ss \<and> map_of s ''area'' = None"
proof -
  obtain d' where 1: "assess_search_ability (world_of 0 x)
     (BehaviorTracker_init unclicked_files) DifficultyDetector_init =
  (\<lparr>skill_name = ''search_ability'', score = 0.25, confidence = 0.5, trend = ''new'',
             evidence = [''Search success rate: '', ''Search refinement rate: '',
                ''Abandoned searches: ''], last_updated = ''t'',
             samples_count = 10\<rparr>, d')"
    using unclicked_search_assessment by blast
  show ?thesis
    by (simp add: assess_all_skills_def 1 unclicked_naming unclicked_folder
      unclicked_management
      Let_def identify_struggles_def identify_improvements_def identify_regressions_def
      generate_recommendations_def THRESHOLD_STRUGGLING_def getitem_def
      recommendation_for_def)
qed

text \<open>
  Claim C8, evaluated on the code. The claim is that \<^verbatim>\<open>get_status\<close> returns, without
  raising, the same structure on two calls within the cache window. On a store of ten
  unclicked searches the search score is 0.25 with confidence 0.5, so the report has a
  struggle; its dictionary has the key \<^verbatim>\<open>'skill'\<close> and \<^verbatim>\<open>get_status\<close> reads \<^verbatim>\<open>s['area']\<close>: the
  first call raises \<^verbatim>\<open>KeyError\<close>, with the clock at instant 0 and for every random draw.
\<close>

theorem get_status_raises:
  "\<exists>c. AdaptiveCoach_init unclicked_files Absent = Inr (Some c)
      \<and> fst (get_status (world_of 0 x) c) = Inl (KeyError ''area'')"
proof -
  let ?c = "\<lparr>tracker = BehaviorTracker_init unclicked_files,
      detector = DifficultyDetector_init,
      suggester = SuggestionEngine_init (BehaviorTracker_init unclicked_files),
      state = CoachingState_default, current_session = None, cached_report = None,
      cache_time = None, state_file = Absent\<rparr>"
  have i: "AdaptiveCoach_init unclicked_files Absent = Inr (Some ?c)"
    by (simp add: AdaptiveCoach_init_def load_state_def loaded_default_def
     CoachingState_of_def int_of_json_def optional_str_of_json_def history_of_json_def
     overrides_of_json_def CoachingState_default_def Let_def)
  obtain r d' s ss where r: "assess_all_skills (world_of 0 x)
       (BehaviorTracker_init unclicked_files) DifficultyDetector_init = (Inr r, d')"
    and s: "struggles r = s # ss" "map_of s ''area'' = None"
    using unclicked_report by blast
  have "\<exists>c. get_difficulty_report (world_of 0 x) ?c = (Inr r, c)"
    by (simp add: get_difficulty_report_def cache_fresh_def r)
  then obtain c where "get_difficulty_report (world_of 0 x) ?c = (Inr r, c)" by blast
  then have "fst (get_status (world_of 0 x) ?c) = Inl (KeyError ''area'')"
    using s by (rule get_status_struggle)
  with i show ?thesis by blast
qed

section \<open>Sample counts and confidence of the four assessors\<close>

lemma search_shape:
  "samples_count (fst (assess_search_ability w t d)) = search_samples w t
   \<and> confidence (fst (assess_search_ability w t d)) = confidence_curve 3 20 (search_samples w t)
   \<and> (search_samples w t < 3 \<longrightarrow> is_neutral (fst (assess_search_ability w t d)))"
  by (simp add: assess_search_ability_def get_search_patterns_def Let_def search_samples_def
      confidence_curve_def is_neutral_def split: prod.splits)

lemma length_map_filter: "length (List.map_filter f xs) = length (filter (\<lambda>x. f x \<noteq> None) xs)"
  by (simp add: List.map_filter_def)

lemma rename_names_length: "length (rename_names t) = naming_samples t"
  unfolding rename_names_def naming_samples_def length_map_filter
  by (rule arg_cong [where f = length], rule filter_cong)
     (auto simp add: truthy_def split: option.splits)

lemma sample_size_preferences: "sample_size (get_naming_preferences t) = naming_samples t"
  using rename_names_length [of t]
  by (auto simp add: get_naming_preferences_def sample_size_def Let_def)

lemma naming_shape:
  "samples_count (fst (assess_naming_consistency w t d)) = naming_samples t
   \<and> confidence (fst (assess_naming_consistency w t d)) = confidence_curve 5 15 (naming_samples t)
   \<and> (naming_samples t < 5 \<longrightarrow> is_neutral (fst (assess_naming_consistency w t d)))"
proof (cases "get_naming_preferences t")
  case No_patterns
  with sample_size_preferences [of t] show ?thesis
    by (simp add: assess_naming_consistency_def Let_def sample_size_def confidence_curve_def
        is_neutral_def)
next
  case (Patterns p n)
  with sample_size_preferences [of t] show ?thesis
    by (simp add: assess_naming_consistency_def Let_def sample_size_def confidence_curve_def
        is_neutral_def split: prod.splits)
qed

lemma fst_case_pair: "fst (case p of (tr, d') \<Rightarrow> (f tr, d')) = f (fst p)"
  by (cases p) simp

lemma folder_shape:
  "samples_count (fst (assess_folder_organization w t d)) = navigation_samples t
   \<and> confidence (fst (assess_folder_organization w t d))
       = confidence_curve 5 20 (navigation_samples t)
   \<and> (navigation_samples t < 5 \<longrightarrow> is_neutral (fst (assess_folder_organization w t d)))"
proof (cases "navigation_samples t < 5")
  case True
  then show ?thesis
    by (simp add: assess_folder_organization_def Let_def navigation_samples_def
        confidence_curve_def is_neutral_def)
next
  case False
  then show ?thesis
    unfolding assess_folder_organization_def Let_def navigation_samples_def [symmetric]
    by (simp only: if_False fst_case_pair SkillAssessment.select_convs confidence_curve_def
        simp_thms)
qed

lemma total_accesses_samples: "total_accesses (get_file_patterns w t 30) = access_samples w t"
  by (simp add: get_file_patterns_def Let_def access_samples_def)

lemma management_shape:
  "samples_count (fst (assess_file_management w t d)) = access_samples w t
   \<and> confidence (fst (assess_file_management w t d)) = confidence_curve 5 30 (access_samples w t)
   \<and> (access_samples w t < 5 \<longrightarrow> is_neutral (fst (assess_file_management w t d)))"
proof (cases "access_samples w t < 5")
  case True
  then show ?thesis
    by (simp add: assess_file_management_def Let_def total_accesses_samples
        confidence_curve_def is_neutral_def)
next
  case False
  then show ?thesis
    unfolding assess_file_management_def Let_def total_accesses_samples
    by (simp only: if_False fst_case_pair SkillAssessment.select_convs confidence_curve_def
        simp_thms)
qed

lemma curve_not_neutral:
  "m \<le> n \<Longrightarrow> 0 < D \<Longrightarrow> D < 10 * real m \<Longrightarrow> confidence_curve m D n \<noteq> 0.1"
proof -
  assume a: "m \<le> n" "0 < D" "D < 10 * real m"
  then have "D < 10 * real n"
    by (smt (verit) of_nat_le_iff)
  with a have "1 / 10 < real n / D"
    by (simp add: field_simps)
  with a show ?thesis by (simp add: confidence_curve_def min_def)
qed

text \<open>
  Claim C5. For every store, clock and detector, each assessor returns the neutral
  assessment (score 0.5, confidence 0.1, trend \<^verbatim>\<open>'new'\<close>) exactly when its sample count is
  below its minimum: fewer than 3 searches in the 30-day window for search ability, fewer
  than 5 renames (rename events that carry a new name, as \<^verbatim>\<open>get_naming_preferences\<close> counts
  them) for naming consistency, fewer than 5 navigation events for folder organization,
  fewer than 5 file accesses in the window for file management. The count is the
  \<^verbatim>\<open>samples_count\<close> reported, and below the minimum the confidence is at most 0.1 and the trend
  is \<^verbatim>\<open>'new'\<close>.
\<close>

theorem neutral_below_minimum:
  "(is_neutral (fst (assess_search_ability w t d)) = (search_samples w t < 3)
    \<and> samples_count (fst (assess_search_ability w t d)) = search_samples w t
    \<and> (search_samples w t < 3
        \<longrightarrow> confidence (fst (assess_search_ability w t d)) \<le> 0.1
          \<and> trend (fst (assess_search_ability w t d)) = ''new''))
   \<and> (is_neutral (fst (assess_naming_consistency w t d)) = (naming_samples t < 5)
    \<and> samples_count (fst (assess_naming_consistency w t d)) = naming_samples t
    \<and> (naming_samples t < 5
        \<longrightarrow> confidence (fst (assess_naming_consistency w t d)) \<le> 0.1
          \<and> trend (fst (assess_naming_consistency w t d)) = ''new''))
   \<and> (is_neutral (fst (assess_folder_organization w t d)) = (navigation_samples t < 5)
    \<and> samples_count (fst (assess_folder_organization w t d)) = navigation_samples t
    \<and> (navigation_samples t < 5
        \<longrightarrow> confidence (fst (assess_folder_organization w t d)) \<le> 0.1
          \<and> trend (fst (assess_folder_organization w t d)) = ''new''))
   \<and> (is_neutral (fst (assess_file_management w t d)) = (access_samples w t < 5)
    \<and> samples_count (fst (assess_file_management w t d)) = access_samples w t
    \<and> (access_samples w t < 5
        \<longrightarrow> confidence (fst (assess_file_management w t d)) \<le> 0.1
          \<and> trend (fst (assess_file_management w t d)) = ''new''))"
proof -
  have c1: "\<not> search_samples w t < 3 \<Longrightarrow> confidence_curve 3 20 (search_samples w t) \<noteq> 0.1"
    by (rule curve_not_neutral) simp_all
  have c2: "\<not> naming_samples t < 5 \<Longrightarrow> confidence_curve 5 15 (naming_samples t) \<noteq> 0.1"
    by (rule curve_not_neutral) simp_all
  have c3: "\<not> navigation_samples t < 5
              \<Longrightarrow> confidence_curve 5 20 (navigation_samples t) \<noteq> 0.1"
    by (rule curve_not_neutral) simp_all
  have c4: "\<not> access_samples w t < 5 \<Longrightarrow> confidence_curve 5 30 (access_samples w t) \<noteq> 0.1"
    by (rule curve_not_neutral) simp_all
  have s: "is_neutral (fst (assess_search_ability w t d)) = (search_samples w t < 3)
    \<and> samples_count (fst (assess_search_ability w t d)) = search_samples w t
    \<and> (search_samples w t < 3
        \<longrightarrow> confidence (fst (assess_search_ability w t d)) \<le> 0.1
          \<and> trend (fst (assess_search_ability w t d)) = ''new'')"
    using search_shape [of w t d] c1 by (auto simp add: is_neutral_def)
  have n: "is_neutral (fst (assess_naming_consistency w t d)) = (naming_samples t < 5)
    \<and> samples_count (fst (assess_naming_consistency w t d)) = naming_samples t
    \<and> (naming_samples t < 5
        \<longrightarrow> confidence (fst (assess_naming_consistency w t d)) \<le> 0.1
          \<and> trend (fst (assess_naming_consistency w t d)) = ''new'')"
    using naming_shape [of w t d] c2 by (auto simp add: is_neutral_def)
  have f: "is_neutral (fst (assess_folder_organization w t d)) = (navigation_samples t < 5)
    \<and> samples_count (fst (assess_folder_organization w t d)) = navigation_samples t
    \<and> (navigation_samples t < 5
        \<longrightarrow> confidence (fst (assess_folder_organization w t d)) \<le> 0.1
          \<and> trend (fst (assess_folder_organization w t d)) = ''new'')"
    using folder_shape [of w t d] c3 by (auto simp add: is_neutral_def)
  have m: "is_neutral (fst (assess_file_management w t d)) = (access_samples w t < 5)
    \<and> samples_count (fst (assess_file_management w t d)) = access_samples w t
    \<and> (access_samples w t < 5
        \<longrightarrow> confidence (fst (assess_file_management w t d)) \<le> 0.1
          \<and> trend (fst (assess_file_management w t d)) = ''new'')"
    using management_shape [of w t d] c4 by (auto simp add: is_neutral_def)
  from s n f m show ?thesis by blast
qed

theorem neutral_below_minimum_witness:
  "is_neutral (fst (assess_search_ability (world_of 0 0) (store_with_searches 2)
                      DifficultyDetector_init))
   \<and> is_neutral (fst (assess_naming_consistency (world_of 0 0) (store_with_searches 2)
                      DifficultyDetector_init))
   \<and> is_neutral (fst (assess_folder_organization (world_of 0 0) (store_with_searches 2)
                      DifficultyDetector_init))
   \<and> is_neutral (fst (assess_file_management (world_of 0 0) (store_with_searches 2)
                      DifficultyDetector_init))
   \<and> search_samples (world_of 0 0) (store_with_searches 2) = 2
   \<and> \<not> is_neutral (fst (assess_search_ability (world_of 0 0) (store_with_searches 10)
                      DifficultyDetector_init))"
  using neutral_below_minimum [of "world_of 0 0" "store_with_searches 2" DifficultyDetector_init]
    neutral_below_minimum [of "world_of 0 0" "store_with_searches 10" DifficultyDetector_init]
  by (simp add: search_samples_def naming_samples_def navigation_samples_def
      access_samples_def store_with_searches_def BehaviorTracker_init_def no_files_def
      load_json_def default_events_def world_of_def unclicked_search_def timedelta_days_def)

section \<open>Confidence as a function of the sample count\<close>

lemma curve_mono:
  assumes "0 < D" and "D \<le> 10 * real m" and "n \<le> n'"
  shows "confidence_curve m D n \<le> confidence_curve m D n'"
proof (cases "n' < m")
  case True
  with assms show ?thesis by (simp add: confidence_curve_def)
next
  case False
  then have "real m \<le> real n'" by simp
  with assms have "D \<le> 10 * real n'" by linarith
  with assms have low: "1 / 10 \<le> real n' / D" by (simp add: field_simps)
  from assms have "real n / D \<le> real n' / D" by (simp add: divide_right_mono)
  with low False show ?thesis by (auto simp add: confidence_curve_def min_def)
qed

lemma curve_strict:
  assumes "0 < D" and "m \<le> n" and "n < n'" and "confidence_curve m D n < 1"
  shows "confidence_curve m D n < confidence_curve m D n'"
proof -
  from assms have "real n / D < real n' / D" by (simp add: divide_strict_right_mono)
  with assms show ?thesis by (auto simp add: confidence_curve_def min_def)
qed

lemma curve_le_one: "confidence_curve m D n \<le> 1"
  by (simp add: confidence_curve_def)

lemma curve_below_ten:
  assumes "n < 10"
  shows "confidence_curve 3 20 n < 0.5"
    and "confidence_curve 5 20 n < 0.5" and "confidence_curve 5 30 n < 0.5"
proof -
  from assms have "real n \<le> 9" by simp
  then show "confidence_curve 3 20 n < 0.5"
    and "confidence_curve 5 20 n < 0.5" and "confidence_curve 5 30 n < 0.5"
    by (simp_all add: confidence_curve_def min_def)
qed

lemma curve_facts:
  assumes "0 < D" and "D \<le> 10 * real m"
  shows "(n \<le> n' \<longrightarrow> confidence_curve m D n \<le> confidence_curve m D n')
    \<and> (m \<le> n \<and> n < n' \<and> confidence_curve m D n < 1
         \<longrightarrow> confidence_curve m D n < confidence_curve m D n')
    \<and> (n < m \<longrightarrow> confidence_curve m D n = 0.1)
    \<and> confidence_curve m D n \<le> 1"
  using assms curve_mono [of D m n n'] curve_strict [of D m n n'] curve_le_one [of m D n]
  by (simp add: confidence_curve_def)

lemmas store_simps =
  search_samples_def naming_samples_def store_with_searches_def store_with_renames_def
  BehaviorTracker_init_def no_files_def load_json_def default_events_def world_of_def
  unclicked_search_def rename_event_def timedelta_days_def truthy_def

text \<open>
  Claim C4, as amended. For any two assessments that one assessor produces, the confidence
  does not decrease when \<^verbatim>\<open>samples_count\<close> increases; it is the constant 0.1 below the skill's
  own minimum (3 searches, 5 samples for the other skills), increases strictly from that
  minimum on until it reaches the cap 1.0, and never exceeds 1. An assessment of search
  ability, folder organization or file management from fewer than 10 samples has confidence
  below 0.5, the bound under which the orchestrator treats a confidence as low.
\<close>

theorem confidence_monotone_in_samples:
  "(let a = fst (assess_search_ability w t d); b = fst (assess_search_ability w' t' d')
    in (samples_count a \<le> samples_count b \<longrightarrow> confidence a \<le> confidence b)
     \<and> (3 \<le> samples_count a \<and> samples_count a < samples_count b \<and> confidence a < 1
          \<longrightarrow> confidence a < confidence b)
     \<and> (samples_count a < 3 \<longrightarrow> confidence a = 0.1)
     \<and> confidence a \<le> 1
     \<and> (samples_count a < 10 \<longrightarrow> confidence a < 0.5))
   \<and> (let a = fst (assess_naming_consistency w t d);
          b = fst (assess_naming_consistency w' t' d')
    in (samples_count a \<le> samples_count b \<longrightarrow> confidence a \<le> confidence b)
     \<and> (5 \<le> samples_count a \<and> samples_count a < samples_count b \<and> confidence a < 1
          \<longrightarrow> confidence a < confidence b)
     \<and> (samples_count a < 5 \<longrightarrow> confidence a = 0.1)
     \<and> confidence a \<le> 1)
   \<and> (let a = fst (assess_folder_organization w t d);
          b = fst (assess_folder_organization w' t' d')
    in (samples_count a \<le> samples_count b \<longrightarrow> confidence a \<le> confidence b)
     \<and> (5 \<le> samples_count a \<and> samples_count a < samples_count b \<and> confidence a < 1
          \<longrightarrow> confidence a < confidence b)
     \<and> (samples_count a < 5 \<longrightarrow> confidence a = 0.1)
     \<and> confidence a \<le> 1
     \<and> (samples_count a < 10 \<longrightarrow> confidence a < 0.5))
   \<and> (let a = fst (assess_file_management w t d); b = fst (assess_file_management w' t' d')
    in (samples_count a \<le> samples_count b \<longrightarrow> confidence a \<le> confidence b)
     \<and> (5 \<le> samples_count a \<and> samples_count a < samples_count b \<and> confidence a < 1
          \<longrightarrow> confidence a < confidence b)
     \<and> (samples_count a < 5 \<longrightarrow> confidence a = 0.1)
     \<and> confidence a \<le> 1
     \<and> (samples_count a < 10 \<longrightarrow> confidence a < 0.5))"
proof -
  have s: "let a = fst (assess_search_ability w t d); b = fst (assess_search_ability w' t' d')
    in (samples_count a \<le> samples_count b \<longrightarrow> confidence a \<le> confidence b)
     \<and> (3 \<le> samples_count a \<and> samples_count a < samples_count b \<and> confidence a < 1
          \<longrightarrow> confidence a < confidence b)
     \<and> (samples_count a < 3 \<longrightarrow> confidence a = 0.1)
     \<and> confidence a \<le> 1
     \<and> (samples_count a < 10 \<longrightarrow> confidence a < 0.5)"
    using search_shape [of w t d] search_shape [of w' t' d']
      curve_facts [of 20 3 "search_samples w t" "search_samples w' t'"]
      curve_below_ten(1) [of "search_samples w t"]
    by (simp add: Let_def)
  have n: "let a = fst (assess_naming_consistency w t d);
          b = fst (assess_naming_consistency w' t' d')
    in (samples_count a \<le> samples_count b \<longrightarrow> confidence a \<le> confidence b)
     \<and> (5 \<le> samples_count a \<and> samples_count a < samples_count b \<and> confidence a < 1
          \<longrightarrow> confidence a < confidence b)
     \<and> (samples_count a < 5 \<longrightarrow> confidence a = 0.1)
     \<and> confidence a \<le> 1"
    using naming_shape [of w t d] naming_shape [of w' t' d']
      curve_facts [of 15 5 "naming_samples t" "naming_samples t'"]
    by (simp add: Let_def)
  have f: "let a = fst (assess_folder_organization w t d);
          b = fst (assess_folder_organization w' t' d')
    in (samples_count a \<le> samples_count b \<longrightarrow> confidence a \<le> confidence b)
     \<and> (5 \<le> samples_count a \<and> samples_count a < samples_count b \<and> confidence a < 1
          \<longrightarrow> confidence a < confidence b)
     \<and> (samples_count a < 5 \<longrightarrow> confidence a = 0.1)
     \<and> confidence a \<le> 1
     \<and> (samples_count a < 10 \<longrightarrow> confidence a < 0.5)"
    using folder_shape [of w t d] folder_shape [of w' t' d']
      curve_facts [of 20 5 "navigation_samples t" "navigation_samples t'"]
      curve_below_ten(2) [of "navigation_samples t"]
    by (simp add: Let_def)
  have m: "let a = fst (assess_file_management w t d);
             b = fst (assess_file_management w' t' d')
    in (samples_count a \<le> samples_count b \<longrightarrow> confidence a \<le> confidence b)
     \<and> (5 \<le> samples_count a \<and> samples_count a < samples_count b \<and> confidence a < 1
          \<longrightarrow> confidence a < confidence b)
     \<and> (samples_count a < 5 \<longrightarrow> confidence a = 0.1)
     \<and> confidence a \<le> 1
     \<and> (samples_count a < 10 \<longrightarrow> confidence a < 0.5)"
    using management_shape [of w t d] management_shape [of w' t' d']
      curve_facts [of 30 5 "access_samples w t" "access_samples w' t'"]
      curve_below_ten(3) [of "access_samples w t"]
    by (simp add: Let_def)
  from s n f m show ?thesis by blast
qed

theorem confidence_monotone_in_samples_witness:
  "confidence (fst (assess_search_ability (world_of 0 0) (store_with_searches 3)
                      DifficultyDetector_init))
     < confidence (fst (assess_search_ability (world_of 0 0) (store_with_searches 4)
                      DifficultyDetector_init))
   \<and> confidence (fst (assess_search_ability (world_of 0 0) (store_with_searches 3)
                      DifficultyDetector_init)) < 0.5
   \<and> confidence (fst (assess_naming_consistency (world_of 0 0) (store_with_renames 2)
                      DifficultyDetector_init)) = 0.1
   \<and> confidence (fst (assess_naming_consistency (world_of 0 0) (store_with_renames 2)
                      DifficultyDetector_init))
     \<le> confidence (fst (assess_naming_consistency (world_of 0 0) (store_with_renames 8)
                      DifficultyDetector_init))"
proof -
  let ?w = "world_of 0 0" and ?d = DifficultyDetector_init
  have s3: "search_samples ?w (store_with_searches 3) = 3"
    and s4: "search_samples ?w (store_with_searches 4) = 4"
    and r2: "naming_samples (store_with_renames 2) = 2"
    and r8: "naming_samples (store_with_renames 8) = 8"
    by (simp_all add: store_simps)
  have a3: "samples_count (fst (assess_search_ability ?w (store_with_searches 3) ?d)) = 3"
    and c3: "confidence (fst (assess_search_ability ?w (store_with_searches 3) ?d)) < 1"
    using search_shape [of ?w "store_with_searches 3" ?d]
    by (simp_all add: s3 confidence_curve_def)
  have a4: "samples_count (fst (assess_search_ability ?w (store_with_searches 4) ?d)) = 4"
    using search_shape [of ?w "store_with_searches 4" ?d] by (simp add: s4)
  have b2: "samples_count (fst (assess_naming_consistency ?w (store_with_renames 2) ?d)) = 2"
    using naming_shape [of ?w "store_with_renames 2" ?d] by (simp add: r2)
  have b8: "samples_count (fst (assess_naming_consistency ?w (store_with_renames 8) ?d)) = 8"
    using naming_shape [of ?w "store_with_renames 8" ?d] by (simp add: r8)
  show ?thesis
    using confidence_monotone_in_samples
        [of ?w "store_with_searches 3" ?d ?w "store_with_searches 4" ?d]
      confidence_monotone_in_samples
        [of ?w "store_with_renames 2" ?d ?w "store_with_renames 8" ?d]
    by (simp add: Let_def a3 a4 c3 b2 b8)
qed

text \<open>
  The claim as stated fails. With no search and with one search in the window the sample
  counts are 0 and 1 and both confidences are 0.1, below the cap: the confidence is not
  strictly increasing. With 8 renames, fewer than \<^const>\<open>MIN_SAMPLES\<close>, the naming confidence is
  8/15, which is not below 0.5, the bound under which the orchestrator treats a confidence
  as low.
\<close>

theorem confidence_flat_counterexample:
  "samples_count (fst (assess_search_ability (world_of 0 0) (store_with_searches 0)
                         DifficultyDetector_init))
     < samples_count (fst (assess_search_ability (world_of 0 0) (store_with_searches 1)
                         DifficultyDetector_init))
   \<and> confidence (fst (assess_search_ability (world_of 0 0) (store_with_searches 0)
                         DifficultyDetector_init)) < 1
   \<and> \<not> confidence (fst (assess_search_ability (world_of 0 0) (store_with_searches 0)
                         DifficultyDetector_init))
        < confidence (fst (assess_search_ability (world_of 0 0) (store_with_searches 1)
                         DifficultyDetector_init))
   \<and> samples_count (fst (assess_naming_consistency (world_of 0 0) (store_with_renames 8)
                         DifficultyDetector_init)) < MIN_SAMPLES
   \<and> \<not> confidence (fst (assess_naming_consistency (world_of 0 0) (store_with_renames 8)
                         DifficultyDetector_init)) < 0.5"
  using
    search_shape [of "world_of 0 0" "store_with_searches 0" DifficultyDetector_init]
    search_shape [of "world_of 0 0" "store_with_searches 1" DifficultyDetector_init]
    naming_shape [of "world_of 0 0" "store_with_renames 8" DifficultyDetector_init]
  by (simp add: Let_def store_simps confidence_curve_def MIN_SAMPLES_def)

end
